theory Spec2Isabelle
  imports Main "HOL-Library.AList"
begin

section \<open>Python values\<close>

text \<open>
  The pipeline of \<^verbatim>\<open>main.py\<close> passes JSON-shaped Python values around: the bodies of
  the webhooks, the answers of the four external services and the dictionaries built from
  them. A value is \<open>None\<close>, a boolean, an integer, a string, a list or a dictionary with
  string keys. A dictionary is an association list, in insertion order, read with
  \<open>map_of\<close> (the first entry of a key is the entry). JSON numbers with a fraction are not
  part of the model. A string is a list of characters, each standing for one code point
  below 256.
\<close>

datatype pyval =
    PNone
  | PBool bool
  | PInt int
  | PStr string
  | PList "pyval list"
  | PDict "(string \<times> pyval) list"

type_synonym pydict = "(string \<times> pyval) list"

text \<open>Python's truth value of an object (\<open>if x\<close>, \<open>not x\<close>, \<open>x or y\<close>).\<close>

fun truthy :: "pyval \<Rightarrow> bool" where
  "truthy PNone = False"
| "truthy (PBool b) = b"
| "truthy (PInt n) = (n \<noteq> 0)"
| "truthy (PStr s) = (s \<noteq> [])"
| "truthy (PList xs) = (xs \<noteq> [])"
| "truthy (PDict d) = (d \<noteq> [])"

text \<open>\<open>d.get(k, default)\<close>, and \<open>d.get(k)\<close> as \<open>py_get d k PNone\<close>.\<close>

definition py_get :: "pydict \<Rightarrow> string \<Rightarrow> pyval \<Rightarrow> pyval" where
  "py_get d k dflt = (case map_of d k of Some v \<Rightarrow> v | None \<Rightarrow> dflt)"

text \<open>\<open>a or b\<close> gives \<open>a\<close> when it is true and \<open>b\<close> otherwise.\<close>

definition py_or :: "pyval \<Rightarrow> pyval \<Rightarrow> pyval" where
  "py_or a b = (if truthy a then a else b)"

text \<open>The exceptions that the modelled code can raise, and the outcome of a call.\<close>

datatype exn = TypeError | AttributeError | IntegrityError | OverflowError

datatype 'a outcome = Raised exn | Returned 'a

text \<open>
  The resolvers answer with a dictionary \<open>{"success": ..., "data" | "error": ...}\<close>. The
  callers read only the flag and the data, so the envelope is a two-case type and the
  diagnostic text of a failure is dropped.
\<close>

datatype 'a envelope = Failure | Success 'a

subsection \<open>Strings\<close>

text \<open>\<open>str(n)\<close> for an integer: decimal digits, with a minus sign below zero.\<close>

definition digit_char :: "nat \<Rightarrow> char" where
  "digit_char d = char_of (48 + d)"

function str_nat :: "nat \<Rightarrow> string" where
  "str_nat n = (if n < 10 then [digit_char n] else str_nat (n div 10) @ [digit_char (n mod 10)])"
  by pat_completeness auto
termination
  by (relation "measure id") auto

declare str_nat.simps [simp del]

definition str_int :: "int \<Rightarrow> string" where
  "str_int i = (if i < 0 then CHR ''-'' # str_nat (nat (- i)) else str_nat (nat i))"

text \<open>
  \<open>str.lower()\<close> on code points below 256: the ASCII capitals and the Latin-1 capitals
  (U+00C0 to U+00DE without the multiplication sign U+00D7) move up by 32.
\<close>

definition lower_char :: "char \<Rightarrow> char" where
  "lower_char c =
     (let n = (of_char c :: nat)
      in if (65 \<le> n \<and> n \<le> 90) \<or> (192 \<le> n \<and> n \<le> 222 \<and> n \<noteq> 215)
         then char_of (n + 32) else c)"

definition lower :: "string \<Rightarrow> string" where
  "lower s = map lower_char s"

text \<open>
  \<open>s.replace(old, new)\<close>: the occurrences of \<open>old\<close> are replaced from the left, without
  overlap. With an empty \<open>old\<close> Python puts \<open>new\<close> before every character and at the end.
\<close>

fun replace_from :: "nat \<Rightarrow> string \<Rightarrow> string \<Rightarrow> string \<Rightarrow> string" where
  "replace_from skip old new [] = []"
| "replace_from skip old new (c # cs) =
     (if 0 < skip then replace_from (skip - 1) old new cs
      else if take (length old) (c # cs) = old
           then new @ replace_from (length old - 1) old new cs
           else c # replace_from 0 old new cs)"

definition replace :: "string \<Rightarrow> string \<Rightarrow> string \<Rightarrow> string" where
  "replace s old new =
     (if old = [] then new @ concat (map (\<lambda>c. c # new) s) else replace_from 0 old new s)"

text \<open>\<open>str.strip()\<close>: the white space of Python among the code points below 256.\<close>

definition is_space :: "char \<Rightarrow> bool" where
  "is_space c = ((of_char c :: nat) \<in> {9, 10, 11, 12, 13, 28, 29, 30, 31, 32, 133, 160})"

definition strip :: "string \<Rightarrow> string" where
  "strip s = rev (dropWhile is_space (rev (dropWhile is_space s)))"

section \<open>The store\<close>

text \<open>
  \<^verbatim>\<open>init_db\<close> creates four SQLite tables. A row is the list of its columns, in the
  order of \<^verbatim>\<open>CREATE TABLE\<close>; a cell holds the Python value handed to the driver
  (\<open>None\<close> is SQL \<open>NULL\<close>) or, for a column written through \<^verbatim>\<open>json.dumps\<close>, the
  value whose JSON text is stored. The column \<^verbatim>\<open>created_at\<close>, filled by the engine's
  clock, is left out. Foreign keys are declared but SQLite does not enforce them unless
  asked to, and the source never asks.

  Of the driver's own checks one is modelled: an integer parameter must fit a signed 64-bit
  integer, else \<open>execute\<close> raises \<^verbatim>\<open>OverflowError\<close>. It is modelled for the one integer
  that comes straight from a request body, the visit duration, in \<^verbatim>\<open>save_visitor\<close>,
  the first statement that binds it. The driver's refusal of other values (a list or a
  dictionary, or a large integer, in an answer of an external service), column affinity and
  a locked or full database are not modelled: a save of a lead that returns in the model may
  raise in the program.
\<close>

datatype cell = Val pyval | Json pyval

type_synonym row = "(string \<times> cell) list"

text \<open>
  A table with \<^verbatim>\<open>INTEGER PRIMARY KEY AUTOINCREMENT\<close>: its rows and the largest row id
  ever given out (SQLite keeps it in \<^verbatim>\<open>sqlite_sequence\<close>).
\<close>

record table =
  table_rows :: "row list"
  table_seq :: nat

definition empty_table :: table where
  "empty_table = \<lparr>table_rows = [], table_seq = 0\<rparr>"

record db =
  visitors_table :: table
  companies_table :: table
  contacts_table :: table
  leads_table :: table

definition empty_db :: db where
  "empty_db = \<lparr>visitors_table = empty_table, companies_table = empty_table,
                contacts_table = empty_table, leads_table = empty_table\<rparr>"

text \<open>The columns of each table with their \<^verbatim>\<open>DEFAULT\<close>, after the \<^verbatim>\<open>id\<close> column.\<close>

definition visitors_schema :: row where
  "visitors_schema =
     [(''session_id'', Val PNone), (''ip_address'', Val PNone), (''pages_viewed'', Val PNone),
      (''visit_duration'', Val (PInt 0)), (''referrer'', Val PNone), (''user_agent'', Val PNone)]"

definition companies_schema :: row where
  "companies_schema =
     [(''domain'', Val PNone), (''name'', Val PNone), (''industry'', Val PNone),
      (''employee_count'', Val (PInt 0)), (''country'', Val PNone), (''city'', Val PNone),
      (''description'', Val PNone), (''funding_stage'', Val PNone),
      (''total_funding'', Val (PInt 0)), (''annual_revenue'', Val (PInt 0)),
      (''linkedin_url'', Val PNone), (''enriched_data'', Val PNone)]"

definition contacts_schema :: row where
  "contacts_schema =
     [(''company_id'', Val PNone), (''name'', Val PNone), (''email'', Val PNone),
      (''title'', Val PNone), (''seniority'', Val PNone), (''department'', Val PNone),
      (''linkedin_url'', Val PNone), (''confidence'', Val (PInt 0))]"

definition leads_schema :: row where
  "leads_schema =
     [(''lead_id'', Val PNone), (''company_id'', Val PNone), (''session_id'', Val PNone),
      (''ip_address'', Val PNone), (''identified_company'', Val PNone),
      (''pages_viewed'', Val PNone), (''visit_duration'', Val (PInt 0)),
      (''referrer'', Val PNone), (''icp_score'', Val (PInt 0)),
      (''tier'', Val (PStr ''cold'')), (''match_reasons'', Val PNone),
      (''intent_signals'', Val PNone), (''research_summary'', Val PNone),
      (''talking_points'', Val PNone), (''email_draft'', Val PNone),
      (''recommended_action'', Val PNone), (''urgency'', Val (PStr ''low'')),
      (''status'', Val (PStr ''new'')), (''source'', Val (PStr ''tracking'')),
      (''person_name'', Val PNone), (''person_email'', Val PNone),
      (''person_title'', Val PNone), (''person_linkedin'', Val PNone)]"

text \<open>The cell of a column, and the id of a row.\<close>

definition col :: "row \<Rightarrow> string \<Rightarrow> cell" where
  "col r c = (case map_of r c of Some v \<Rightarrow> v | None \<Rightarrow> Val PNone)"

definition rowid :: "row \<Rightarrow> nat" where
  "rowid r = (case map_of r ''id'' of Some (Val (PInt i)) \<Rightarrow> nat i | _ \<Rightarrow> 0)"

fun max_rowid :: "row list \<Rightarrow> nat" where
  "max_rowid [] = 0"
| "max_rowid (r # rs) = max (rowid r) (max_rowid rs)"

text \<open>
  The id of the next row: one more than the largest id that the table holds or ever held.
\<close>

definition next_rowid :: "table \<Rightarrow> nat" where
  "next_rowid t = Suc (max (table_seq t) (max_rowid (table_rows t)))"

text \<open>
  The row that \<^verbatim>\<open>INSERT INTO t (c1, ..) VALUES (v1, ..)\<close> makes: the named columns get
  their values and every other column its default.
\<close>

definition new_row :: "row \<Rightarrow> nat \<Rightarrow> row \<Rightarrow> row" where
  "new_row schema rid given =
     (''id'', Val (PInt (int rid))) #
     map (\<lambda>(c, dflt). (c, case map_of given c of Some v \<Rightarrow> v | None \<Rightarrow> dflt)) schema"

text \<open>A plain insert into a table that has no constraint beyond its generated key.\<close>

definition insert_row :: "row \<Rightarrow> row \<Rightarrow> table \<Rightarrow> table" where
  "insert_row schema given t =
     (let rid = next_rowid t
      in \<lparr>table_rows = table_rows t @ [new_row schema rid given], table_seq = rid\<rparr>)"

text \<open>
  Two rows collide on a \<^verbatim>\<open>UNIQUE\<close> column when they hold the same value there and it
  is not \<open>NULL\<close>.
\<close>

definition collides :: "string \<Rightarrow> row \<Rightarrow> row \<Rightarrow> bool" where
  "collides c r r' = (col r c = col r' c \<and> col r c \<noteq> Val PNone)"

text \<open>
  \<^verbatim>\<open>INSERT OR REPLACE\<close> on a table with one \<^verbatim>\<open>UNIQUE\<close> column: the new row gets
  its id, the rows it collides with are deleted, and the new row is stored.
\<close>

definition insert_or_replace :: "row \<Rightarrow> string \<Rightarrow> row \<Rightarrow> table \<Rightarrow> table" where
  "insert_or_replace schema uniq given t =
     (let rid = next_rowid t;
          r = new_row schema rid given
      in \<lparr>table_rows = filter (\<lambda>x. \<not> collides uniq x r) (table_rows t) @ [r],
          table_seq = rid\<rparr>)"

text \<open>
  \<^verbatim>\<open>INSERT\<close> on a table with one \<^verbatim>\<open>UNIQUE\<close> column: a collision raises
  \<^verbatim>\<open>sqlite3.IntegrityError\<close>.
\<close>

definition insert_unique :: "row \<Rightarrow> string \<Rightarrow> row \<Rightarrow> table \<Rightarrow> table outcome" where
  "insert_unique schema uniq given t =
     (let rid = next_rowid t;
          r = new_row schema rid given
      in if list_ex (\<lambda>x. collides uniq x r) (table_rows t) then Raised IntegrityError
         else Returned \<lparr>table_rows = table_rows t @ [r], table_seq = rid\<rparr>)"

text \<open>
  \<^verbatim>\<open>INSERT OR IGNORE\<close> skips a row that breaks a constraint. The table
  \<^verbatim>\<open>contacts\<close> declares none besides its generated key, so no row is ever skipped.
\<close>

definition insert_or_ignore :: "row \<Rightarrow> row \<Rightarrow> table \<Rightarrow> table" where
  "insert_or_ignore schema given t = insert_row schema given t"

section \<open>Configuration, the outside world and what a run leaves behind\<close>

text \<open>
  \<^verbatim>\<open>get_settings\<close> reads five credentials from the environment; an unset one is the
  empty string. Its \<^verbatim>\<open>icp_config\<close> is a constant that is only printed into the scoring
  prompt.
\<close>

record settings =
  apollo_api_key :: string
  hunter_api_key :: string
  openai_api_key :: string
  ipinfo_token :: string
  slack_webhook_url :: string

text \<open>
  The scoring prompt is built from the company, the number of contacts, the visit and the
  person; the answer of the scoring service is taken as a function of them.
\<close>

type_synonym prompt = "pydict \<times> nat \<times> pydict \<times> pydict"

text \<open>
  The external services. Each resolver wraps its request and the decoding of the answer in
  \<^verbatim>\<open>try\<close>/\<^verbatim>\<open>except Exception\<close>, so an answer is \<open>Some body\<close>, for status 200 with a body
  that decodes to \<open>body\<close>, or \<open>None\<close> for everything else (another status, a time-out, a
  transport error, a body that does not decode). For the scoring service the body is the
  decoded JSON of the first choice's message, after the code fences are removed.
  \<open>slack_fails\<close> tells whether the post to the chat webhook raises. \<open>py_repr\<close> is the text
  that \<open>str()\<close> gives for a list or a dictionary.
\<close>

record world =
  ipinfo_get :: "string \<Rightarrow> pyval option"
  apollo_post :: "string \<Rightarrow> string \<Rightarrow> pyval option"
  hunter_get :: "string \<Rightarrow> string \<Rightarrow> pyval option"
  openai_post :: "string \<Rightarrow> prompt \<Rightarrow> pyval option"
  slack_fails :: "string \<Rightarrow> string list \<Rightarrow> bool"
  py_repr :: "pyval \<Rightarrow> string"

text \<open>What a run does to the outside, in order: commits to the store and requests.\<close>

datatype event =
    Visitor_committed
  | Lead_committed string
  | Ipinfo_request string
  | Apollo_request string
  | Hunter_request string
  | Openai_request prompt
  | Slack_request string "string list"

record state =
  database :: db
  trace :: "event list"

definition emit :: "event list \<Rightarrow> state \<Rightarrow> state" where
  "emit es st = st\<lparr>trace := trace st @ es\<rparr>"

definition is_slack :: "event \<Rightarrow> bool" where
  "is_slack e = (case e of Slack_request u m \<Rightarrow> True | _ \<Rightarrow> False)"

text \<open>\<open>str(v)\<close>, as an f-string prints a value.\<close>

definition py_str :: "world \<Rightarrow> pyval \<Rightarrow> string" where
  "py_str w v =
     (case v of
        PNone \<Rightarrow> ''None''
      | PBool b \<Rightarrow> (if b then ''True'' else ''False'')
      | PInt n \<Rightarrow> str_int n
      | PStr s \<Rightarrow> s
      | _ \<Rightarrow> py_repr w v)"

section \<open>The resolvers\<close>

subsection \<open>\<^verbatim>\<open>lookup_company_from_ip\<close>\<close>

record ip_data =
  ip_ip :: string
  ip_company_name :: string
  ip_domain :: string
  ip_city :: pyval
  ip_region :: pyval
  ip_country :: pyval
  ip_org :: pyval

text \<open>
  \<open>parts = org.split(" ", 1)\<close> and \<open>parts[1] if len(parts) > 1 else org\<close>: what follows
  the first space, or the whole string when it has no space.
\<close>

definition company_name_of_org :: "string \<Rightarrow> string" where
  "company_name_of_org org =
     (if CHR '' '' \<in> set org then tl (dropWhile (\<lambda>c. c \<noteq> CHR '' '') org) else org)"

definition legal_suffixes :: "string list" where
  "legal_suffixes =
     [''inc'', ''llc'', ''ltd'', ''corp'', ''corporation'', ''pvt'', ''private'', ''limited'']"

text \<open>Lines 200 to 206: the guessed domain of a company name.\<close>

definition guess_domain :: "string \<Rightarrow> string" where
  "guess_domain company_name =
     (if company_name = [] then []
      else
        let clean0 = replace (replace (replace (lower company_name) '' '' []) '','' []) ''.'' [];
            clean = fold (\<lambda>suffix c. replace c suffix []) legal_suffixes clean0
        in if 2 < length clean then take 20 clean @ ''.com'' else [])"







definition local_ips :: "string list" where
  "local_ips = [''127.0.0.1'', ''localhost'', ''::1'', []]"

definition ipinfo_url :: "string \<Rightarrow> string \<Rightarrow> string" where
  "ipinfo_url ip_address token =
     ''https://ipinfo.io/'' @ ip_address @ (if token \<noteq> [] then ''?token='' @ token else [])"

text \<open>
  The result is the requests made and the envelope. An answer that is not a dictionary, or
  an \<open>org\<close> that is true but not a string, raises inside the \<^verbatim>\<open>try\<close> and gives a
  failure.
\<close>

definition lookup_company_from_ip :: "world \<Rightarrow> string \<Rightarrow> string \<Rightarrow> event list \<times> ip_data envelope" where
  "lookup_company_from_ip w ip_address token =
     (if ip_address = [] \<or> ip_address \<in> set local_ips then ([], Failure)
      else
        let url = ipinfo_url ip_address token
        in ([Ipinfo_request url],
            case ipinfo_get w url of
              None \<Rightarrow> Failure
            | Some (PDict data) \<Rightarrow>
                (let org = py_get data ''org'' (PStr []);
                     mk = (\<lambda>company_name.
                             \<lparr>ip_ip = ip_address, ip_company_name = company_name,
                              ip_domain = guess_domain company_name,
                              ip_city = py_get data ''city'' (PStr []),
                              ip_region = py_get data ''region'' (PStr []),
                              ip_country = py_get data ''country'' (PStr []),
                              ip_org = org\<rparr>)
                 in if truthy org
                    then (case org of
                            PStr og \<Rightarrow> Success (mk (company_name_of_org og))
                          | _ \<Rightarrow> Failure)
                    else Success (mk []))
            | Some _ \<Rightarrow> Failure))"

subsection \<open>\<^verbatim>\<open>enrich_company_apollo\<close>\<close>

definition enrich_company_apollo :: "world \<Rightarrow> string \<Rightarrow> string \<Rightarrow> event list \<times> pydict envelope" where
  "enrich_company_apollo w domain api_key =
     (if api_key = [] \<or> domain = [] then ([], Failure)
      else
        ([Apollo_request domain],
         case apollo_post w api_key domain of
           None \<Rightarrow> Failure
         | Some (PDict data) \<Rightarrow>
             (let org = py_get data ''organization'' (PDict [])
              in if \<not> truthy org then Failure
                 else (case org of
                         PDict og \<Rightarrow>
                           Success
                             [(''name'', py_get og ''name'' (PStr [])),
                              (''domain'', py_get og ''primary_domain'' (PStr domain)),
                              (''industry'', py_get og ''industry'' (PStr ''Unknown'')),
                              (''employee_count'', py_get og ''estimated_num_employees'' (PInt 0)),
                              (''country'', py_get og ''country'' (PStr [])),
                              (''city'', py_get og ''city'' (PStr [])),
                              (''description'', py_get og ''short_description'' (PStr [])),
                              (''funding_stage'', py_get og ''latest_funding_stage'' (PStr [])),
                              (''total_funding'', py_get og ''total_funding'' (PInt 0)),
                              (''annual_revenue'', py_get og ''annual_revenue'' (PInt 0)),
                              (''linkedin_url'', py_get og ''linkedin_url'' (PStr []))]
                       | _ \<Rightarrow> Failure))
         | Some _ \<Rightarrow> Failure))"

subsection \<open>\<^verbatim>\<open>find_contacts_hunter\<close>\<close>

text \<open>One entry of the comprehension; an entry that is not a dictionary raises.\<close>

definition hunter_contact :: "world \<Rightarrow> pyval \<Rightarrow> pydict option" where
  "hunter_contact w e =
     (case e of
        PDict ed \<Rightarrow>
          Some [(''name'', PStr (strip (py_str w (py_get ed ''first_name'' (PStr [])) @ '' '' @
                                        py_str w (py_get ed ''last_name'' (PStr []))))),
                (''email'', py_get ed ''value'' (PStr [])),
                (''title'', py_get ed ''position'' (PStr [])),
                (''department'', py_get ed ''department'' (PStr [])),
                (''seniority'', py_get ed ''seniority'' (PStr [])),
                (''linkedin_url'', py_get ed ''linkedin'' (PStr [])),
                (''confidence'', py_get ed ''confidence'' (PInt 0))]
      | _ \<Rightarrow> None)"

fun hunter_contacts :: "world \<Rightarrow> pyval list \<Rightarrow> pydict list option" where
  "hunter_contacts w [] = Some []"
| "hunter_contacts w (e # es) =
     (case hunter_contact w e of
        None \<Rightarrow> None
      | Some c \<Rightarrow> (case hunter_contacts w es of None \<Rightarrow> None | Some cs \<Rightarrow> Some (c # cs)))"

text \<open>
  \<open>emails[:5]\<close> is defined on a list and on a string; the characters of a string have no
  \<open>get\<close>, so only the empty string goes through.
\<close>

definition find_contacts_hunter :: "world \<Rightarrow> string \<Rightarrow> string \<Rightarrow> event list \<times> pydict list envelope" where
  "find_contacts_hunter w domain api_key =
     (if api_key = [] \<or> domain = [] then ([], Failure)
      else
        ([Hunter_request domain],
         case hunter_get w api_key domain of
           None \<Rightarrow> Failure
         | Some (PDict data) \<Rightarrow>
             (case py_get data ''data'' (PDict []) of
                PDict inner \<Rightarrow>
                  (case py_get inner ''emails'' (PList []) of
                     PList emails \<Rightarrow>
                       (case hunter_contacts w (take 5 emails) of
                          None \<Rightarrow> Failure
                        | Some cs \<Rightarrow> Success cs)
                   | PStr s \<Rightarrow> (if s = [] then Success [] else Failure)
                   | _ \<Rightarrow> Failure)
              | _ \<Rightarrow> Failure)
         | Some _ \<Rightarrow> Failure))"

subsection \<open>\<^verbatim>\<open>score_lead_openai\<close>\<close>

text \<open>
  The prompt is built before the \<^verbatim>\<open>try\<close>. Its only step that can raise is
  \<open>company.get('description', '')[:200]\<close>: a string or a list can be sliced, any other
  value raises and the exception leaves the function.
\<close>

definition sliceable :: "pyval \<Rightarrow> bool" where
  "sliceable v = (case v of PStr s \<Rightarrow> True | PList xs \<Rightarrow> True | _ \<Rightarrow> False)"

definition score_lead_openai ::
  "world \<Rightarrow> pydict \<Rightarrow> pydict list \<Rightarrow> pydict \<Rightarrow> pydict \<Rightarrow> string \<Rightarrow> (event list \<times> pyval envelope) outcome" where
  "score_lead_openai w company contacts visit_data person_data api_key =
     (if api_key = [] then Returned ([], Failure)
      else if \<not> sliceable (py_get company ''description'' (PStr [])) then Raised TypeError
      else
        let p = (company, length contacts, visit_data, person_data)
        in Returned ([Openai_request p],
                     case openai_post w api_key p of None \<Rightarrow> Failure | Some v \<Rightarrow> Success v))"

section \<open>Persistence\<close>

text \<open>The body of the tracking webhook (\<^verbatim>\<open>class VisitorData\<close>).\<close>

record visitor_data =
  v_project_id :: string
  v_session_id :: string
  v_ip_address :: "string option"
  v_current_url :: string
  v_referrer :: "string option"
  v_pages_viewed :: "pydict list"
  v_visit_duration :: int
  v_user_agent :: "string option"
  v_screen_size :: "string option"
  v_timestamp :: string
  v_event :: "string option"

definition opt_str :: "string option \<Rightarrow> pyval" where
  "opt_str x = (case x of None \<Rightarrow> PNone | Some s \<Rightarrow> PStr s)"

subsection \<open>\<^verbatim>\<open>save_visitor\<close>\<close>

text \<open>
  The values of the statement fit the driver when the visit duration is in the range of a
  signed 64-bit integer; the other values are \<open>None\<close> or strings, and the strings of the
  model, of code points below 256, are all accepted.
\<close>

definition in_int64 :: "int \<Rightarrow> bool" where
  "in_int64 n = (- (2 ^ 63) \<le> n \<and> n < 2 ^ 63)"

text \<open>The state after the insert and its commit.\<close>

definition visit_stored :: "visitor_data \<Rightarrow> string \<Rightarrow> state \<Rightarrow> state" where
  "visit_stored visitor ip st =
     (let d = database st;
          given = [(''session_id'', Val (PStr (v_session_id visitor))),
                   (''ip_address'', Val (PStr ip)),
                   (''pages_viewed'', Json (PList (map PDict (v_pages_viewed visitor)))),
                   (''visit_duration'', Val (PInt (v_visit_duration visitor))),
                   (''referrer'', Val (opt_str (v_referrer visitor))),
                   (''user_agent'', Val (opt_str (v_user_agent visitor)))]
      in emit [Visitor_committed]
           (st\<lparr>database := d\<lparr>visitors_table := insert_row visitors_schema given (visitors_table d)\<rparr>\<rparr>))"

text \<open>
  \<^verbatim>\<open>save_visitor\<close>: when the driver refuses the duration, \<open>execute\<close> raises before the
  commit and nothing is stored.
\<close>

definition save_visitor :: "visitor_data \<Rightarrow> string \<Rightarrow> state \<Rightarrow> state outcome" where
  "save_visitor visitor ip st =
     (if in_int64 (v_visit_duration visitor) then Returned (visit_stored visitor ip st)
      else Raised OverflowError)"

subsection \<open>The statements shared by \<^verbatim>\<open>save_lead\<close> and \<^verbatim>\<open>save_rb2b_lead\<close>\<close>

text \<open>
  The column list and the values of \<^verbatim>\<open>INSERT OR REPLACE INTO companies\<close>, the same text
  in both functions. The column \<^verbatim>\<open>annual_revenue\<close> is not in the list.
\<close>

definition company_values :: "pydict \<Rightarrow> row" where
  "company_values company =
     [(''domain'', Val (py_get company ''domain'' PNone)),
      (''name'', Val (py_get company ''name'' PNone)),
      (''industry'', Val (py_get company ''industry'' PNone)),
      (''employee_count'', Val (py_get company ''employee_count'' (PInt 0))),
      (''country'', Val (py_get company ''country'' PNone)),
      (''city'', Val (py_get company ''city'' PNone)),
      (''description'', Val (py_get company ''description'' PNone)),
      (''funding_stage'', Val (py_get company ''funding_stage'' PNone)),
      (''total_funding'', Val (py_get company ''total_funding'' (PInt 0))),
      (''linkedin_url'', Val (py_get company ''linkedin_url'' PNone)),
      (''enriched_data'', Json (PDict company))]"

definition upsert_company :: "pydict \<Rightarrow> table \<Rightarrow> table" where
  "upsert_company company t = insert_or_replace companies_schema ''domain'' (company_values company) t"

text \<open>\<^verbatim>\<open>SELECT id FROM companies WHERE domain=?\<close> and \<open>fetchone()\<close>.\<close>

definition select_company_id :: "pyval \<Rightarrow> table \<Rightarrow> cell option" where
  "select_company_id domain t =
     (case filter (\<lambda>r. col r ''domain'' = Val domain \<and> domain \<noteq> PNone) (table_rows t) of
        [] \<Rightarrow> None
      | r # rs \<Rightarrow> Some (col r ''id''))"

definition contact_values :: "pyval \<Rightarrow> pydict \<Rightarrow> row" where
  "contact_values company_id c =
     [(''company_id'', Val company_id),
      (''name'', Val (py_get c ''name'' PNone)),
      (''email'', Val (py_get c ''email'' PNone)),
      (''title'', Val (py_get c ''title'' PNone)),
      (''seniority'', Val (py_get c ''seniority'' PNone)),
      (''department'', Val (py_get c ''department'' PNone)),
      (''linkedin_url'', Val (py_get c ''linkedin_url'' PNone)),
      (''confidence'', Val (py_get c ''confidence'' (PInt 0)))]"

text \<open>The loop \<open>for c in contacts\<close> with its \<^verbatim>\<open>INSERT OR IGNORE INTO contacts\<close>.\<close>

fun save_contacts :: "pyval \<Rightarrow> pydict list \<Rightarrow> table \<Rightarrow> table" where
  "save_contacts company_id [] t = t"
| "save_contacts company_id (c # cs) t =
     save_contacts company_id cs (insert_or_ignore contacts_schema (contact_values company_id c) t)"

subsection \<open>\<^verbatim>\<open>save_lead\<close>\<close>

text \<open>
  The connection commits once, at the end. When a statement raises, the function is left
  with the transaction open and nothing of it is stored: the outcome is the exception and
  the database is the one before the call.
\<close>

definition lead_values ::
  "string \<Rightarrow> pyval \<Rightarrow> visitor_data \<Rightarrow> pydict \<Rightarrow> string \<Rightarrow> string \<Rightarrow> string \<Rightarrow> pydict \<Rightarrow> row" where
  "lead_values lead_id company_id visitor scoring ip identified source person =
     [(''lead_id'', Val (PStr lead_id)),
      (''company_id'', Val company_id),
      (''session_id'', Val (PStr (v_session_id visitor))),
      (''ip_address'', Val (PStr ip)),
      (''identified_company'', Val (PStr identified)),
      (''pages_viewed'', Json (PList (map PDict (v_pages_viewed visitor)))),
      (''visit_duration'', Val (PInt (v_visit_duration visitor))),
      (''referrer'', Val (opt_str (v_referrer visitor))),
      (''icp_score'', Val (py_get scoring ''icp_score'' (PInt 0))),
      (''tier'', Val (py_get scoring ''tier'' (PStr ''cold''))),
      (''match_reasons'', Json (py_get scoring ''match_reasons'' (PList []))),
      (''intent_signals'', Json (py_get scoring ''intent_signals'' (PList []))),
      (''research_summary'', Val (py_get scoring ''research_summary'' (PStr []))),
      (''talking_points'', Json (py_get scoring ''talking_points'' (PList []))),
      (''email_draft'', Json (py_get scoring ''email_draft'' (PDict []))),
      (''recommended_action'', Val (py_get scoring ''recommended_action'' (PStr []))),
      (''urgency'', Val (py_get scoring ''urgency'' (PStr ''low''))),
      (''source'', Val (PStr source)),
      (''person_name'', Val (py_get person ''name'' (PStr []))),
      (''person_email'', Val (py_get person ''email'' (PStr []))),
      (''person_title'', Val (py_get person ''title'' (PStr []))),
      (''person_linkedin'', Val (py_get person ''linkedin'' (PStr [])))]"

text \<open>
  \<open>company_id = cursor.lastrowid or cursor.execute(SELECT ..).fetchone()[0]\<close>: the row id
  of the insert when it is not 0, else the first column of the selected row, and a
  \<open>TypeError\<close> when there is no such row.
\<close>

definition lastrowid_or_select :: "pyval \<Rightarrow> table \<Rightarrow> pyval outcome" where
  "lastrowid_or_select domain t =
     (if table_seq t \<noteq> 0 then Returned (PInt (int (table_seq t)))
      else (case select_company_id domain t of
              None \<Rightarrow> Raised TypeError
            | Some (Val v) \<Rightarrow> Returned v
            | Some (Json v) \<Rightarrow> Returned v))"

definition save_lead ::
  "string \<Rightarrow> pydict \<Rightarrow> pydict list \<Rightarrow> visitor_data \<Rightarrow> pydict \<Rightarrow> string \<Rightarrow> string \<Rightarrow> string \<Rightarrow> pydict
     \<Rightarrow> db \<Rightarrow> db outcome" where
  "save_lead lead_id company contacts visitor scoring ip identified source person d =
     (case (if truthy (py_get company ''domain'' PNone)
            then (let comps = upsert_company company (companies_table d)
                  in case lastrowid_or_select (py_get company ''domain'' PNone) comps of
                       Raised e \<Rightarrow> Raised e
                     | Returned company_id \<Rightarrow>
                         Returned (company_id,
                                   d\<lparr>companies_table := comps,
                                     contacts_table := save_contacts company_id contacts (contacts_table d)\<rparr>))
            else Returned (PNone, d)) of
        Raised e \<Rightarrow> Raised e
      | Returned (company_id, d1) \<Rightarrow>
          (case insert_unique leads_schema ''lead_id''
                  (lead_values lead_id company_id visitor scoring ip identified source person)
                  (leads_table d1) of
             Raised e \<Rightarrow> Raised e
           | Returned ls \<Rightarrow> Returned (d1\<lparr>leads_table := ls\<rparr>)))"

subsection \<open>\<^verbatim>\<open>save_rb2b_lead\<close>\<close>

definition rb2b_lead_values :: "string \<Rightarrow> pyval \<Rightarrow> pydict \<Rightarrow> pydict \<Rightarrow> pydict \<Rightarrow> row" where
  "rb2b_lead_values lead_id company_id company scoring person =
     [(''lead_id'', Val (PStr lead_id)),
      (''company_id'', Val company_id),
      (''session_id'', Val (PStr [])),
      (''ip_address'', Val (PStr [])),
      (''identified_company'', Val (py_get company ''name'' (PStr []))),
      (''pages_viewed'', Json (PList [])),
      (''visit_duration'', Val (PInt 0)),
      (''referrer'', Val (PStr [])),
      (''icp_score'', Val (py_get scoring ''icp_score'' (PInt 0))),
      (''tier'', Val (py_get scoring ''tier'' (PStr ''warm''))),
      (''match_reasons'', Json (py_get scoring ''match_reasons'' (PList []))),
      (''intent_signals'', Json (py_get scoring ''intent_signals'' (PList []))),
      (''research_summary'', Val (py_get scoring ''research_summary'' (PStr []))),
      (''talking_points'', Json (py_get scoring ''talking_points'' (PList []))),
      (''email_draft'', Json (py_get scoring ''email_draft'' (PDict []))),
      (''recommended_action'', Val (py_get scoring ''recommended_action'' (PStr ''send_email''))),
      (''urgency'', Val (py_get scoring ''urgency'' (PStr ''medium''))),
      (''source'', Val (PStr ''rb2b'')),
      (''person_name'', Val (py_get person ''name'' (PStr []))),
      (''person_email'', Val (py_get person ''email'' (PStr []))),
      (''person_title'', Val (py_get person ''title'' (PStr []))),
      (''person_linkedin'', Val (py_get person ''linkedin'' (PStr [])))]"

text \<open>
  Here the id is read back with the \<^verbatim>\<open>SELECT\<close>; \<open>company_id\<close> stays \<open>None\<close> when no
  row comes back. The argument \<open>raw_data\<close> is not used by the source.
\<close>

definition save_rb2b_lead ::
  "string \<Rightarrow> pydict \<Rightarrow> pydict list \<Rightarrow> pydict \<Rightarrow> pydict \<Rightarrow> pydict \<Rightarrow> db \<Rightarrow> db outcome" where
  "save_rb2b_lead lead_id company contacts scoring person raw_data d =
     (let (company_id, d1) =
            (if truthy (py_get company ''domain'' PNone)
             then (let comps = upsert_company company (companies_table d);
                       company_id = (case select_company_id (py_get company ''domain'' PNone) comps of
                                       None \<Rightarrow> PNone
                                     | Some (Val v) \<Rightarrow> v
                                     | Some (Json v) \<Rightarrow> v)
                   in (company_id,
                       d\<lparr>companies_table := comps,
                         contacts_table := save_contacts company_id contacts (contacts_table d)\<rparr>))
             else (PNone, d))
      in case insert_unique leads_schema ''lead_id''
                (rb2b_lead_values lead_id company_id company scoring person) (leads_table d1) of
           Raised e \<Rightarrow> Raised e
         | Returned ls \<Rightarrow> Returned (d1\<lparr>leads_table := ls\<rparr>))"

section \<open>The notifier: \<^verbatim>\<open>send_slack_alert\<close>\<close>

text \<open>
  The message is kept as its three texts. The emoji that opens the header is a code point
  above 255 and is left out. The post sits in \<^verbatim>\<open>try\<close>/\<^verbatim>\<open>except: pass\<close>: whether it
  raises or not, the function returns.
\<close>

definition slack_message :: "world \<Rightarrow> pydict \<Rightarrow> pydict \<Rightarrow> pydict \<Rightarrow> string list" where
  "slack_message w company scoring person =
     (let person_info =
            (if truthy (py_get person ''name'' PNone)
             then [CHR 0x0A] @ ''*Person:* '' @ py_str w (py_get person ''name'' PNone) @ '' - '' @
                  py_str w (py_get person ''title'' (PStr ''N/A'')) @
                  [CHR 0x0A] @ ''*Email:* '' @ py_str w (py_get person ''email'' (PStr ''N/A''))
             else [])
      in ['' HOT LEAD: '' @ py_str w (py_get company ''name'' (PStr ''Unknown'')),
          ''*Score:* '' @ py_str w (py_get scoring ''icp_score'' (PInt 0)) @ ''/100 | *Industry:* '' @
            py_str w (py_get company ''industry'' (PStr ''Unknown'')) @ person_info,
          ''*Summary:* '' @ py_str w (py_get scoring ''research_summary'' (PStr []))])"

definition send_slack_alert ::
  "world \<Rightarrow> pydict \<Rightarrow> pydict \<Rightarrow> string \<Rightarrow> pydict \<Rightarrow> string \<Rightarrow> state \<Rightarrow> state" where
  "send_slack_alert w company scoring ip person webhook_url st =
     (let message = slack_message w company scoring person;
          st' = emit [Slack_request webhook_url message] st
      in if slack_fails w webhook_url message then st' else st')"

section \<open>The anonymous pathway: \<^verbatim>\<open>process_visitor\<close>\<close>

text \<open>
  A run takes the world, the settings, the clock (\<open>int(datetime.now().timestamp())\<close>) and
  the state, and gives the state it leaves and its outcome. The \<open>print\<close> calls are
  left out, except where evaluating their argument can raise.
\<close>

text \<open>Line 378, \<open>visitor.ip_address or client_ip or ""\<close>.\<close>

definition effective_ip :: "visitor_data \<Rightarrow> string \<Rightarrow> string" where
  "effective_ip visitor client_ip =
     (case v_ip_address visitor of
        Some a \<Rightarrow> (if a \<noteq> [] then a else client_ip)
      | None \<Rightarrow> client_ip)"

text \<open>Line 386, the test that ends the run for local traffic.\<close>

definition skip_ip :: "string \<Rightarrow> bool" where
  "skip_ip ip = (ip = [] \<or> ip \<in> set [''127.0.0.1'', ''::1'', ''localhost''])"

text \<open>Lines 400 to 405: the shell of a company, replaced whole by a successful enrichment.\<close>

definition enrich_or_shell :: "world \<Rightarrow> settings \<Rightarrow> string \<Rightarrow> pydict \<Rightarrow> event list \<times> pydict" where
  "enrich_or_shell w settings domain shell =
     (if domain \<noteq> [] \<and> apollo_api_key settings \<noteq> []
      then (case enrich_company_apollo w domain (apollo_api_key settings) of
              (ev, Success data) \<Rightarrow> (ev, data)
            | (ev, Failure) \<Rightarrow> (ev, shell))
      else ([], shell))"

text \<open>Lines 408 to 413.\<close>

definition find_contacts :: "world \<Rightarrow> settings \<Rightarrow> string \<Rightarrow> event list \<times> pydict list" where
  "find_contacts w settings domain =
     (if domain \<noteq> [] \<and> hunter_api_key settings \<noteq> []
      then (case find_contacts_hunter w domain (hunter_api_key settings) of
              (ev, Success cs) \<Rightarrow> (ev, cs)
            | (ev, Failure) \<Rightarrow> (ev, []))
      else ([], []))"

text \<open>Lines 416 to 420: the default scoring of a tracked visit.\<close>

definition visitor_default_scoring :: "string \<Rightarrow> string \<Rightarrow> pydict" where
  "visitor_default_scoring identified ip =
     [(''icp_score'', PInt 30), (''tier'', PStr ''cold''), (''match_reasons'', PList []),
      (''intent_signals'', PList []), (''recommended_action'', PStr ''skip''),
      (''urgency'', PStr ''low''),
      (''research_summary'', PStr (''Visitor from '' @ (if identified \<noteq> [] then identified else ip))),
      (''talking_points'', PList []), (''email_draft'', PDict [])]"

text \<open>
  Lines 422 to 428. A successful answer replaces the default whole; the \<open>print\<close> of line
  428 calls \<open>scoring.get\<close>, which raises when the answer is not a dictionary.
\<close>

definition visitor_scoring ::
  "world \<Rightarrow> settings \<Rightarrow> visitor_data \<Rightarrow> pydict \<Rightarrow> pydict list \<Rightarrow> string \<Rightarrow> string
     \<Rightarrow> event list \<times> pydict outcome" where
  "visitor_scoring w settings visitor company contacts identified ip =
     (let scoring = visitor_default_scoring identified ip
      in if openai_api_key settings \<noteq> [] \<and> identified \<noteq> []
         then (let visit_data = [(''pages_viewed'', PList (map PDict (v_pages_viewed visitor))),
                                 (''visit_duration'', PInt (v_visit_duration visitor)),
                                 (''referrer'', opt_str (v_referrer visitor))]
               in case score_lead_openai w company contacts visit_data [] (openai_api_key settings) of
                    Raised e \<Rightarrow> ([], Raised e)
                  | Returned (ev, Failure) \<Rightarrow> (ev, Returned scoring)
                  | Returned (ev, Success (PDict sc)) \<Rightarrow> (ev, Returned sc)
                  | Returned (ev, Success _) \<Rightarrow> (ev, Raised AttributeError))
         else ([], Returned scoring))"

text \<open>Lines 433 to 435 and 514 to 516.\<close>

definition notify_if_hot ::
  "world \<Rightarrow> settings \<Rightarrow> pydict \<Rightarrow> pydict \<Rightarrow> string \<Rightarrow> pydict \<Rightarrow> state \<Rightarrow> state" where
  "notify_if_hot w settings company scoring ip person st =
     (if slack_webhook_url settings \<noteq> [] \<and> py_get scoring ''tier'' PNone = PStr ''hot''
      then send_slack_alert w company scoring ip person (slack_webhook_url settings) st
      else st)"

definition process_visitor ::
  "world \<Rightarrow> settings \<Rightarrow> int \<Rightarrow> visitor_data \<Rightarrow> string \<Rightarrow> state \<Rightarrow> state \<times> unit outcome" where
  "process_visitor w settings now visitor client_ip st0 =
     (let ip = effective_ip visitor client_ip
      in case save_visitor visitor ip st0 of
           Raised e \<Rightarrow> (st0, Raised e)
         | Returned st1 \<Rightarrow>
             (if skip_ip ip then (st1, Returned ())
              else
                 let lead_id = ''lead_'' @ str_int now @ ''_'' @ take 8 (v_session_id visitor);
                     (ev1, ip_result) = lookup_company_from_ip w ip (ipinfo_token settings);
                     identified = (case ip_result of Success data \<Rightarrow> ip_company_name data | Failure \<Rightarrow> []);
                     domain = (case ip_result of Success data \<Rightarrow> ip_domain data | Failure \<Rightarrow> []);
                     shell = [(''name'', PStr (if identified \<noteq> [] then identified else ''Unknown'')),
                              (''domain'', PStr domain), (''industry'', PStr ''Unknown''),
                              (''employee_count'', PInt 0),
                              (''country'', (case ip_result of Success data \<Rightarrow> ip_country data
                                                             | Failure \<Rightarrow> PStr []))];
                     (ev2, company) = enrich_or_shell w settings domain shell;
                     (ev3, contacts) = find_contacts w settings domain;
                     (ev4, scored) = visitor_scoring w settings visitor company contacts identified ip;
                     st4 = emit (ev1 @ ev2 @ ev3 @ ev4) st1
                 in case scored of
                      Raised e \<Rightarrow> (st4, Raised e)
                    | Returned scoring \<Rightarrow>
                        (case save_lead lead_id company contacts visitor scoring ip identified
                                ''tracking'' [] (database st4) of
                           Raised e \<Rightarrow> (st4, Raised e)
                         | Returned d \<Rightarrow>
                             (notify_if_hot w settings company scoring ip []
                                (emit [Lead_committed lead_id] (st4\<lparr>database := d\<rparr>)),
                              Returned ()))))"

section \<open>The identified-person pathway: \<^verbatim>\<open>process_rb2b_lead\<close>\<close>

text \<open>Lines 446 to 452: a field under its header-style key or its snake-case key.\<close>

definition rb2b_field :: "pydict \<Rightarrow> string \<Rightarrow> string \<Rightarrow> pyval" where
  "rb2b_field rb2b_data k1 k2 = py_or (py_get rb2b_data k1 (PStr [])) (py_get rb2b_data k2 (PStr []))"

text \<open>
  Lines 459 and 463: \<open>email.split("@")[-1] if "@" in email else ""\<close> and
  \<open>email.split('@')[0]\<close>. A true value that is not a string raises at \<open>in\<close> (a number)
  or at \<open>split\<close> (a list or a dictionary).
\<close>

definition email_domain :: "string \<Rightarrow> string" where
  "email_domain e =
     (if CHR ''@'' \<in> set e then rev (takeWhile (\<lambda>c. c \<noteq> CHR ''@'') (rev e)) else [])"

definition email_local :: "string \<Rightarrow> string" where
  "email_local e = takeWhile (\<lambda>c. c \<noteq> CHR ''@'') e"

definition email_parts :: "pyval \<Rightarrow> (string \<times> string) outcome" where
  "email_parts email =
     (case email of
        PStr e \<Rightarrow> Returned (email_domain e, email_local e)
      | PList xs \<Rightarrow> Raised AttributeError
      | PDict d \<Rightarrow> Raised AttributeError
      | _ \<Rightarrow> Raised TypeError)"

text \<open>Lines 490 to 496: the default scoring of an identified person.\<close>

definition rb2b_default_scoring :: "world \<Rightarrow> string \<Rightarrow> pyval \<Rightarrow> pyval \<Rightarrow> pyval \<Rightarrow> pydict \<Rightarrow> pydict" where
  "rb2b_default_scoring w full_name first_name title company_name company =
     [(''icp_score'', PInt 60), (''tier'', PStr ''warm''),
      (''match_reasons'', PList [PStr ''Person identified via RB2B'']),
      (''intent_signals'', PList [PStr ''Visited website'']),
      (''recommended_action'', PStr ''send_email''), (''urgency'', PStr ''medium''),
      (''research_summary'',
         PStr (full_name @ '' from '' @ py_str w (py_get company ''name'' company_name) @
               '' visited the website.'')),
      (''talking_points'', PList [PStr ''Visited your website'', PStr (''Works as '' @ py_str w title)]),
      (''email_draft'',
         PDict [(''subject'', PStr ''Following up on your visit''),
                (''body'', PStr (''Hi '' @ py_str w first_name @
                                 '', I noticed you visited our website...''))])]"

text \<open>
  Lines 502 to 508: the bonus on the answer of the scoring engine. \<open>scoring.get\<close> raises
  on an answer that is not a dictionary, and \<open>+ 15\<close> on a score that is not a number; a
  boolean counts as 0 or 1.
\<close>

definition retier :: "int \<Rightarrow> pydict \<Rightarrow> pydict" where
  "retier score sc =
     (let sc1 = AList.update ''icp_score'' (PInt score) sc
      in if 70 \<le> score then AList.update ''tier'' (PStr ''hot'') sc1
         else if 50 \<le> score then AList.update ''tier'' (PStr ''warm'') sc1
         else sc1)"

definition rb2b_bonus :: "pyval \<Rightarrow> pydict outcome" where
  "rb2b_bonus data =
     (case data of
        PDict sc \<Rightarrow>
          (case py_get sc ''icp_score'' (PInt 50) of
             PInt n \<Rightarrow> Returned (retier (min 100 (n + 15)) sc)
           | PBool b \<Rightarrow> Returned (retier (min 100 ((if b then 1 else 0) + 15)) sc)
           | _ \<Rightarrow> Raised TypeError)
      | _ \<Rightarrow> Raised AttributeError)"

text \<open>Lines 498 to 509.\<close>

definition rb2b_scoring ::
  "world \<Rightarrow> settings \<Rightarrow> pydict \<Rightarrow> pydict list \<Rightarrow> pydict \<Rightarrow> pydict \<Rightarrow> event list \<times> pydict outcome" where
  "rb2b_scoring w settings company contacts person_data scoring =
     (if openai_api_key settings \<noteq> []
      then (let visit_data = [(''pages_viewed'', PList []), (''visit_duration'', PInt 0),
                              (''referrer'', PStr [])]
            in case score_lead_openai w company contacts visit_data person_data
                      (openai_api_key settings) of
                 Raised e \<Rightarrow> ([], Raised e)
               | Returned (ev, Failure) \<Rightarrow> (ev, Returned scoring)
               | Returned (ev, Success data) \<Rightarrow> (ev, rb2b_bonus data))
      else ([], Returned scoring))"

record rb2b_result =
  r_lead_id :: string
  r_person :: pydict
  r_company :: pydict
  r_scoring :: pydict

definition process_rb2b_lead ::
  "world \<Rightarrow> settings \<Rightarrow> int \<Rightarrow> pydict \<Rightarrow> state \<Rightarrow> state \<times> rb2b_result option outcome" where
  "process_rb2b_lead w settings now rb2b_data st0 =
     (let email = rb2b_field rb2b_data ''Email'' ''email'';
          first_name = rb2b_field rb2b_data ''First Name'' ''first_name'';
          last_name = rb2b_field rb2b_data ''Last Name'' ''last_name'';
          full_name = strip (py_str w first_name @ '' '' @ py_str w last_name);
          title = rb2b_field rb2b_data ''Title'' ''title'';
          linkedin = rb2b_field rb2b_data ''LinkedIn URL'' ''linkedin_url'';
          company_name = rb2b_field rb2b_data ''Company'' ''company''
      in if \<not> truthy email then (st0, Returned None)
         else
           (case email_parts email of
              Raised e \<Rightarrow> (st0, Raised e)
            | Returned (domain, local_part) \<Rightarrow>
                (let lead_id = ''rb2b_'' @ str_int now @ ''_'' @ take 8 local_part;
                     shell = [(''name'', py_or company_name (PStr domain)), (''domain'', PStr domain),
                              (''industry'', PStr ''Unknown''), (''employee_count'', PInt 0),
                              (''country'', PStr [])];
                     (ev1, company) = enrich_or_shell w settings domain shell;
                     (ev2, contacts) = find_contacts w settings domain;
                     person_data = [(''name'', PStr full_name), (''email'', email),
                                    (''title'', title), (''linkedin'', linkedin)];
                     scoring0 = rb2b_default_scoring w full_name first_name title company_name company;
                     (ev3, scored) = rb2b_scoring w settings company contacts person_data scoring0;
                     st3 = emit (ev1 @ ev2 @ ev3) st0
                 in case scored of
                      Raised e \<Rightarrow> (st3, Raised e)
                    | Returned scoring \<Rightarrow>
                        (case save_rb2b_lead lead_id company contacts scoring person_data rb2b_data
                                (database st3) of
                           Raised e \<Rightarrow> (st3, Raised e)
                         | Returned d \<Rightarrow>
                             (notify_if_hot w settings company scoring [] person_data
                                (emit [Lead_committed lead_id] (st3\<lparr>database := d\<rparr>)),
                              Returned (Some \<lparr>r_lead_id = lead_id, r_person = person_data,
                                              r_company = company, r_scoring = scoring\<rparr>))))))"

section \<open>Example inputs\<close>

text \<open>
  The sample event of the endpoint \<^verbatim>\<open>/api/test-rb2b\<close>, a tracked visit, settings with
  every credential or with some missing, and worlds in which the services answer or are
  down. In \<open>ex_world n\<close> the scoring engine answers with the raw score \<open>n\<close>; in
  \<open>ex_world_with_org org\<close> the IP lookup answers with the organization \<open>org\<close>.
\<close>

definition ex_rb2b :: pydict where
  "ex_rb2b =
     [(''First Name'', PStr ''John''), (''Last Name'', PStr ''Smith''),
      (''Email'', PStr ''john.smith@shopify.com''), (''Title'', PStr ''VP of Marketing''),
      (''Company'', PStr ''Shopify''),
      (''LinkedIn URL'', PStr ''https://www.linkedin.com/in/johnsmith/'')]"

definition ex_rb2b_no_email :: pydict where
  "ex_rb2b_no_email =
     [(''First Name'', PStr ''John''), (''Last Name'', PStr ''Smith''), (''email'', PStr []),
      (''Company'', PStr ''Shopify'')]"

definition ex_visitor :: visitor_data where
  "ex_visitor =
     \<lparr>v_project_id = ''site'', v_session_id = ''sess-0123456789'',
      v_ip_address = Some ''23.227.38.32'', v_current_url = ''https://example.com/pricing'',
      v_referrer = Some [], v_pages_viewed = [[(''url'', PStr ''/pricing'')]],
      v_visit_duration = 95, v_user_agent = Some ''Mozilla/5.0'', v_screen_size = Some ''1920x1080'',
      v_timestamp = ''2024-01-01T00:00:00Z'', v_event = Some ''pageview''\<rparr>"

definition ex_local_visitor :: visitor_data where
  "ex_local_visitor = ex_visitor\<lparr>v_ip_address := Some ''127.0.0.1''\<rparr>"

definition ex_long_visitor :: visitor_data where
  "ex_long_visitor = ex_visitor\<lparr>v_visit_duration := 2 ^ 63\<rparr>"

definition ex_settings :: settings where
  "ex_settings =
     \<lparr>apollo_api_key = ''apollo-key'', hunter_api_key = ''hunter-key'',
      openai_api_key = ''openai-key'', ipinfo_token = [],
      slack_webhook_url = ''https://hooks.example/T1''\<rparr>"

definition ex_settings_no_openai :: settings where
  "ex_settings_no_openai = ex_settings\<lparr>openai_api_key := []\<rparr>"

definition ex_settings_no_slack :: settings where
  "ex_settings_no_slack = ex_settings\<lparr>slack_webhook_url := []\<rparr>"

definition ex_answer :: "int \<Rightarrow> pydict" where
  "ex_answer n =
     [(''icp_score'', PInt n), (''tier'', PStr ''cold''), (''match_reasons'', PList [PStr ''ICP industry'']),
      (''intent_signals'', PList []), (''recommended_action'', PStr ''nurture''),
      (''urgency'', PStr ''low''), (''research_summary'', PStr ''An online shop platform.''),
      (''talking_points'', PList []), (''email_draft'', PDict [])]"

definition ex_organization :: pydict where
  "ex_organization =
     [(''name'', PStr ''Shopify''), (''primary_domain'', PStr ''shopify.com''),
      (''industry'', PStr ''E-commerce''), (''estimated_num_employees'', PInt 8000),
      (''country'', PStr ''Canada''), (''city'', PStr ''Ottawa''),
      (''short_description'', PStr ''Commerce platform''),
      (''latest_funding_stage'', PStr ''IPO''), (''total_funding'', PInt 122000000),
      (''annual_revenue'', PInt 5000000), (''linkedin_url'', PStr ''https://linkedin.com/company/shopify'')]"

definition ex_emails :: "pyval list" where
  "ex_emails =
     [PDict [(''first_name'', PStr ''Ann''), (''last_name'', PStr ''Lee''),
             (''value'', PStr ''ann.lee@shopify.com''), (''position'', PStr ''CTO''),
             (''confidence'', PInt 93)]]"

definition ex_world :: "int \<Rightarrow> world" where
  "ex_world n =
     \<lparr>ipinfo_get = (\<lambda>url. Some (PDict [(''org'', PStr ''14061 Shopify Inc''), (''country'', PStr ''CA'')])),
      apollo_post = (\<lambda>key domain. Some (PDict [(''organization'', PDict ex_organization)])),
      hunter_get = (\<lambda>key domain. Some (PDict [(''data'', PDict [(''emails'', PList ex_emails)])])),
      openai_post = (\<lambda>key p. Some (PDict (ex_answer n))),
      slack_fails = (\<lambda>url message. True),
      py_repr = (\<lambda>v. ''...'')\<rparr>"


definition ex_world_scoring_down :: world where
  "ex_world_scoring_down = (ex_world 0)\<lparr>openai_post := (\<lambda>key p. None)\<rparr>"

definition ex_state :: state where
  "ex_state = \<lparr>database = empty_db, trace = []\<rparr>"

definition ex_company :: pydict where
  "ex_company =
     [(''name'', PStr ''Acme''), (''domain'', PStr ''acme.com''), (''industry'', PStr ''SaaS''),
      (''employee_count'', PInt 40), (''country'', PStr ''US'')]"

definition ex_company_later :: pydict where
  "ex_company_later =
     [(''name'', PStr ''Acme Corporation''), (''domain'', PStr ''acme.com''),
      (''industry'', PStr ''Software''), (''employee_count'', PInt 55), (''country'', PStr ''US''),
      (''city'', PStr ''Austin'')]"

definition ex_contact :: pydict where
  "ex_contact =
     [(''name'', PStr ''Ann Lee''), (''email'', PStr ''ann@acme.com''), (''title'', PStr ''CTO''),
      (''department'', PStr []), (''seniority'', PStr []), (''linkedin_url'', PStr []),
      (''confidence'', PInt 90)]"

section \<open>Facts about dictionaries, strings and the store\<close>

lemma py_get_map_of: "map_of d k = Some v \<Longrightarrow> py_get d k dflt = v"
  by (simp add: py_get_def)

lemma py_get_absent: "map_of d k = None \<Longrightarrow> py_get d k dflt = dflt"
  by (simp add: py_get_def)

lemma py_get_update_same: "py_get (AList.update k v d) k dflt = v"
  by (simp add: py_get_def update_conv')

lemma py_get_update_other: "k' \<noteq> k \<Longrightarrow> py_get (AList.update k v d) k' dflt = py_get d k' dflt"
  by (simp add: py_get_def update_conv')

lemma rowid_le_max_rowid: "r \<in> set rs \<Longrightarrow> rowid r \<le> max_rowid rs"
  by (induction rs) auto

lemma rowid_new_row: "rowid (new_row schema rid given) = rid"
  by (simp add: rowid_def new_row_def)

lemma rowid_less_next: "r \<in> set (table_rows t) \<Longrightarrow> rowid r < next_rowid t"
  using rowid_le_max_rowid [of r "table_rows t"] by (simp add: next_rowid_def)

lemma col_company_domain:
  "col (new_row companies_schema rid (company_values company)) ''domain'' = Val (py_get company ''domain'' PNone)"
  by (simp add: col_def new_row_def companies_schema_def company_values_def)

lemma col_company_annual_revenue:
  "col (new_row companies_schema rid (company_values company)) ''annual_revenue'' = Val (PInt 0)"
  by (simp add: col_def new_row_def companies_schema_def company_values_def)

lemma rows_upsert_company:
  "table_rows (upsert_company company t) =
     filter (\<lambda>x. \<not> collides ''domain'' x (new_row companies_schema (next_rowid t) (company_values company)))
       (table_rows t) @ [new_row companies_schema (next_rowid t) (company_values company)]"
  by (simp add: upsert_company_def insert_or_replace_def Let_def)

lemma seq_upsert_company: "table_seq (upsert_company company t) = next_rowid t"
  by (simp add: upsert_company_def insert_or_replace_def Let_def)

lemma domain_rows_upsert_company:
  assumes "py_get company ''domain'' PNone = v" "v \<noteq> PNone"
  shows "filter (\<lambda>r. col r ''domain'' = Val v) (table_rows (upsert_company company t)) =
           [new_row companies_schema (next_rowid t) (company_values company)]"
proof -
  let ?r = "new_row companies_schema (next_rowid t) (company_values company)"
  have c: "col ?r ''domain'' = Val v"
    using assms(1) by (simp add: col_company_domain)
  have "filter (\<lambda>r. col r ''domain'' = Val v) (filter (\<lambda>x. \<not> collides ''domain'' x ?r) (table_rows t)) = []"
    using c assms(2) by (auto simp: filter_empty_conv collides_def)
  then show ?thesis
    using c by (simp add: rows_upsert_company)
qed

lemma rows_save_contacts:
  "\<exists>new. table_rows (save_contacts company_id cs t) = table_rows t @ new \<and> length new = length cs"
proof (induction cs arbitrary: t)
  case Nil
  then show ?case by simp
next
  case (Cons c cs)
  let ?t1 = "insert_or_ignore contacts_schema (contact_values company_id c) t"
  obtain new where n: "table_rows (save_contacts company_id cs ?t1) = table_rows ?t1 @ new"
    "length new = length cs"
    using Cons.IH [of ?t1] by blast
  have "table_rows ?t1 = table_rows t @ [new_row contacts_schema (next_rowid t) (contact_values company_id c)]"
    by (simp add: insert_or_ignore_def insert_row_def Let_def)
  with n show ?case by simp
qed

lemma insert_unique_Returned:
  "insert_unique schema uniq given t = Returned t' \<Longrightarrow>
     table_rows t' = table_rows t @ [new_row schema (next_rowid t) given] \<and>
     table_seq t' = next_rowid t \<and>
     \<not> list_ex (\<lambda>x. collides uniq x (new_row schema (next_rowid t) given)) (table_rows t)"
  by (auto simp: insert_unique_def Let_def split: if_splits)

lemma lastrowid_or_select_upsert:
  "lastrowid_or_select v (upsert_company company t) = Returned (PInt (int (next_rowid t)))"
  by (simp add: lastrowid_or_select_def seq_upsert_company next_rowid_def)

lemma save_lead_with_domain:
  assumes "save_lead lead_id company contacts visitor scoring ip identified source person d = Returned d'"
    and "truthy (py_get company ''domain'' PNone)"
  shows "companies_table d' = upsert_company company (companies_table d)"
    and "contacts_table d' =
           save_contacts (PInt (int (next_rowid (companies_table d)))) contacts (contacts_table d)"
    and "visitors_table d' = visitors_table d"
    and "insert_unique leads_schema ''lead_id''
           (lead_values lead_id (PInt (int (next_rowid (companies_table d)))) visitor scoring ip
              identified source person) (leads_table d) = Returned (leads_table d')"
  using assms
  by (auto simp: save_lead_def lastrowid_or_select_upsert split: outcome.splits)

lemma save_lead_without_domain:
  assumes "save_lead lead_id company contacts visitor scoring ip identified source person d = Returned d'"
    and "\<not> truthy (py_get company ''domain'' PNone)"
  shows "companies_table d' = companies_table d"
    and "contacts_table d' = contacts_table d"
    and "visitors_table d' = visitors_table d"
    and "insert_unique leads_schema ''lead_id''
           (lead_values lead_id PNone visitor scoring ip identified source person) (leads_table d) =
         Returned (leads_table d')"
  using assms
  by (auto simp: save_lead_def split: outcome.splits)

lemma select_company_id_upsert:
  assumes "py_get company ''domain'' PNone = v" "v \<noteq> PNone"
  shows "select_company_id v (upsert_company company t) = Some (Val (PInt (int (next_rowid t))))"
proof -
  have "filter (\<lambda>r. col r ''domain'' = Val v \<and> v \<noteq> PNone) (table_rows (upsert_company company t)) =
          [new_row companies_schema (next_rowid t) (company_values company)]"
    using domain_rows_upsert_company [OF assms, of t] assms(2) by simp
  then show ?thesis
    by (simp add: select_company_id_def col_def new_row_def)
qed

lemma truthy_not_None: "truthy v \<Longrightarrow> v \<noteq> PNone"
  by auto

lemma save_rb2b_lead_with_domain:
  assumes "save_rb2b_lead lead_id company contacts scoring person raw_data d = Returned d'"
    and "truthy (py_get company ''domain'' PNone)"
  shows "companies_table d' = upsert_company company (companies_table d)"
    and "contacts_table d' =
           save_contacts (PInt (int (next_rowid (companies_table d)))) contacts (contacts_table d)"
    and "visitors_table d' = visitors_table d"
    and "insert_unique leads_schema ''lead_id''
           (rb2b_lead_values lead_id (PInt (int (next_rowid (companies_table d)))) company scoring person)
           (leads_table d) = Returned (leads_table d')"
  using assms select_company_id_upsert [OF refl truthy_not_None [OF assms(2)], of "companies_table d"]
  by (auto simp: save_rb2b_lead_def Let_def split: outcome.splits)

lemma save_rb2b_lead_without_domain:
  assumes "save_rb2b_lead lead_id company contacts scoring person raw_data d = Returned d'"
    and "\<not> truthy (py_get company ''domain'' PNone)"
  shows "companies_table d' = companies_table d"
    and "contacts_table d' = contacts_table d"
    and "visitors_table d' = visitors_table d"
    and "insert_unique leads_schema ''lead_id''
           (rb2b_lead_values lead_id PNone company scoring person) (leads_table d) =
         Returned (leads_table d')"
  using assms
  by (auto simp: save_rb2b_lead_def Let_def split: outcome.splits)

lemma distinct_rowid_upsert:
  assumes "distinct (map rowid (table_rows t))"
  shows "distinct (map rowid (table_rows (upsert_company company t)))"
proof -
  have "\<forall>r \<in> set (table_rows t). rowid r \<noteq> next_rowid t"
    using rowid_less_next by fastforce
  then show ?thesis
    using assms by (auto simp: rows_upsert_company rowid_new_row distinct_map_filter)
qed

lemma upsert_removes_old:
  assumes dm: "py_get company ''domain'' PNone = PStr dm"
    and pk: "distinct (map rowid (table_rows t))"
    and old: "old \<in> set (table_rows t)" "col old ''domain'' = Val (PStr dm)"
  shows "\<forall>r \<in> set (table_rows (upsert_company company t)). rowid r \<noteq> rowid old"
proof
  fix r
  assume r: "r \<in> set (table_rows (upsert_company company t))"
  let ?new = "new_row companies_schema (next_rowid t) (company_values company)"
  have coll: "collides ''domain'' old ?new"
    using dm old(2) by (simp add: collides_def col_company_domain)
  from r consider "r = ?new" | "r \<in> set (table_rows t)" "\<not> collides ''domain'' r ?new"
    by (auto simp: rows_upsert_company)
  then show "rowid r \<noteq> rowid old"
  proof cases
    case 1
    then show ?thesis
      using rowid_less_next [OF old(1)] by (simp add: rowid_new_row)
  next
    case 2
    then have "r \<noteq> old" using coll by auto
    then show ?thesis
      using pk 2(1) old(1) by (auto simp: distinct_map inj_on_def)
  qed
qed

section \<open>Facts about the two pathways\<close>

lemma trace_emit: "trace (emit es st) = trace st @ es"
  by (simp add: emit_def)

lemma database_emit: "database (emit es st) = database st"
  by (simp add: emit_def)

lemma database_send_slack_alert:
  "database (send_slack_alert w company scoring ip person url st) = database st"
  by (simp add: send_slack_alert_def Let_def database_emit)

lemma trace_send_slack_alert:
  "trace (send_slack_alert w company scoring ip person url st) =
     trace st @ [Slack_request url (slack_message w company scoring person)]"
  by (simp add: send_slack_alert_def Let_def trace_emit)

lemma database_notify_if_hot:
  "database (notify_if_hot w settings company scoring ip person st) = database st"
  by (simp add: notify_if_hot_def database_send_slack_alert)

lemma trace_notify_if_hot:
  "trace (notify_if_hot w settings company scoring ip person st) =
     trace st @
     (if slack_webhook_url settings \<noteq> [] \<and> py_get scoring ''tier'' PNone = PStr ''hot''
      then [Slack_request (slack_webhook_url settings) (slack_message w company scoring person)]
      else [])"
  by (simp add: notify_if_hot_def trace_send_slack_alert)

lemma trace_visit_stored: "trace (visit_stored visitor ip st) = trace st @ [Visitor_committed]"
  by (simp add: visit_stored_def Let_def trace_emit)

lemma database_visit_stored:
  "database (visit_stored visitor ip st) =
     (database st)\<lparr>visitors_table :=
        insert_row visitors_schema
          [(''session_id'', Val (PStr (v_session_id visitor))),
           (''ip_address'', Val (PStr ip)),
           (''pages_viewed'', Json (PList (map PDict (v_pages_viewed visitor)))),
           (''visit_duration'', Val (PInt (v_visit_duration visitor))),
           (''referrer'', Val (opt_str (v_referrer visitor))),
           (''user_agent'', Val (opt_str (v_user_agent visitor)))]
          (visitors_table (database st))\<rparr>"
  by (simp add: visit_stored_def Let_def database_emit)

lemma no_slack_lookup:
  "lookup_company_from_ip w ip token = (ev, x) \<Longrightarrow> filter is_slack ev = []"
  by (auto simp: lookup_company_from_ip_def Let_def is_slack_def split: if_splits)

lemma no_slack_enrich_or_shell:
  "enrich_or_shell w settings domain shell = (ev, company) \<Longrightarrow> filter is_slack ev = []"
  by (auto simp: enrich_or_shell_def enrich_company_apollo_def is_slack_def
           split: if_splits prod.splits envelope.splits)

lemma no_slack_find_contacts:
  "find_contacts w settings domain = (ev, contacts) \<Longrightarrow> filter is_slack ev = []"
  by (auto simp: find_contacts_def find_contacts_hunter_def is_slack_def
           split: if_splits prod.splits envelope.splits)

lemma no_slack_score_lead_openai:
  "score_lead_openai w company contacts visit_data person_data key = Returned (ev, x) \<Longrightarrow>
     filter is_slack ev = []"
  by (auto simp: score_lead_openai_def Let_def is_slack_def split: if_splits)

lemma no_slack_rb2b_scoring:
  "rb2b_scoring w settings company contacts person_data scoring = (ev, x) \<Longrightarrow>
     filter is_slack ev = []"
  by (auto simp: rb2b_scoring_def Let_def
           split: if_splits outcome.splits prod.splits envelope.splits
           dest: no_slack_score_lead_openai)

lemma no_slack_visitor_scoring:
  "visitor_scoring w settings visitor company contacts identified ip = (ev, x) \<Longrightarrow>
     filter is_slack ev = []"
  by (auto simp: visitor_scoring_def Let_def
           split: if_splits outcome.splits prod.splits envelope.splits pyval.splits
           dest: no_slack_score_lead_openai)

lemma process_rb2b_lead_Some:
  assumes "process_rb2b_lead w settings now rb2b_data st0 = (st', Returned (Some r))"
  shows "\<exists>e fn first title cn contacts ev d.
           rb2b_field rb2b_data ''Email'' ''email'' = PStr e \<and> e \<noteq> [] \<and>
           r_lead_id r = ''rb2b_'' @ str_int now @ ''_'' @ take 8 (email_local e) \<and>
           (\<exists>ev3. rb2b_scoring w settings (r_company r) contacts (r_person r)
             (rb2b_default_scoring w fn first title cn (r_company r)) = (ev3, Returned (r_scoring r))) \<and>
           save_rb2b_lead (r_lead_id r) (r_company r) contacts (r_scoring r) (r_person r) rb2b_data
             (database st0) = Returned d \<and>
           st' = notify_if_hot w settings (r_company r) (r_scoring r) [] (r_person r)
                   (emit [Lead_committed (r_lead_id r)] ((emit ev st0)\<lparr>database := d\<rparr>)) \<and>
           filter is_slack ev = []"
  using assms
  unfolding process_rb2b_lead_def Let_def email_parts_def
  apply (simp split: if_splits outcome.splits prod.splits pyval.splits)
  apply (clarsimp simp: database_emit)
  apply (intro exI conjI)
     apply assumption
    apply assumption
   apply (rule refl)
  apply (simp add: no_slack_enrich_or_shell no_slack_find_contacts no_slack_rb2b_scoring)
  done

lemma save_rb2b_lead_lead_row:
  assumes "save_rb2b_lead lead_id company contacts scoring person raw_data d = Returned d'"
  shows "\<exists>cid. table_rows (leads_table d') =
           table_rows (leads_table d) @
           [new_row leads_schema (next_rowid (leads_table d))
              (rb2b_lead_values lead_id cid company scoring person)]"
proof (cases "truthy (py_get company ''domain'' PNone)")
  case True
  from insert_unique_Returned [OF save_rb2b_lead_with_domain(4) [OF assms True]]
  show ?thesis by blast
next
  case False
  from insert_unique_Returned [OF save_rb2b_lead_without_domain(4) [OF assms False]]
  show ?thesis by blast
qed

lemma save_lead_lead_row:
  assumes "save_lead lead_id company contacts visitor scoring ip identified source person d = Returned d'"
  shows "\<exists>cid. table_rows (leads_table d') =
           table_rows (leads_table d) @
           [new_row leads_schema (next_rowid (leads_table d))
              (lead_values lead_id cid visitor scoring ip identified source person)]"
proof (cases "truthy (py_get company ''domain'' PNone)")
  case True
  from insert_unique_Returned [OF save_lead_with_domain(4) [OF assms True]]
  show ?thesis by blast
next
  case False
  from insert_unique_Returned [OF save_lead_without_domain(4) [OF assms False]]
  show ?thesis by blast
qed

lemma rb2b_lead_scoring_cols:
  fixes lead_id cid company scoring person rid
  defines "row \<equiv> new_row leads_schema rid (rb2b_lead_values lead_id cid company scoring person)"
  shows "col row ''lead_id'' = Val (PStr lead_id)"
    and "col row ''icp_score'' = Val (py_get scoring ''icp_score'' (PInt 0))"
    and "col row ''tier'' = Val (py_get scoring ''tier'' (PStr ''warm''))"
    and "col row ''recommended_action'' = Val (py_get scoring ''recommended_action'' (PStr ''send_email''))"
    and "col row ''urgency'' = Val (py_get scoring ''urgency'' (PStr ''medium''))"
    and "col row ''source'' = Val (PStr ''rb2b'')"
  by (simp_all add: row_def col_def new_row_def leads_schema_def rb2b_lead_values_def)

lemma lead_scoring_cols:
  fixes lead_id cid visitor scoring ip identified source person rid
  defines "row \<equiv> new_row leads_schema rid
                    (lead_values lead_id cid visitor scoring ip identified source person)"
  shows "col row ''lead_id'' = Val (PStr lead_id)"
    and "col row ''icp_score'' = Val (py_get scoring ''icp_score'' (PInt 0))"
    and "col row ''tier'' = Val (py_get scoring ''tier'' (PStr ''cold''))"
    and "col row ''recommended_action'' = Val (py_get scoring ''recommended_action'' (PStr []))"
    and "col row ''urgency'' = Val (py_get scoring ''urgency'' (PStr ''low''))"
    and "col row ''research_summary'' = Val (py_get scoring ''research_summary'' (PStr []))"
    and "col row ''match_reasons'' = Json (py_get scoring ''match_reasons'' (PList []))"
    and "col row ''intent_signals'' = Json (py_get scoring ''intent_signals'' (PList []))"
    and "col row ''talking_points'' = Json (py_get scoring ''talking_points'' (PList []))"
    and "col row ''email_draft'' = Json (py_get scoring ''email_draft'' (PDict []))"
    and "col row ''source'' = Val (PStr source)"
  by (simp_all add: row_def col_def new_row_def leads_schema_def lead_values_def)

lemma retier_score: "py_get (retier s sc) ''icp_score'' dflt = PInt s"
  by (simp add: retier_def Let_def py_get_update_same py_get_update_other)

lemma retier_tier:
  "py_get (retier s sc) ''tier'' dflt =
     (if 70 \<le> s then PStr ''hot'' else if 50 \<le> s then PStr ''warm'' else py_get sc ''tier'' dflt)"
  by (simp add: retier_def Let_def py_get_update_same py_get_update_other)

lemma rb2b_scoring_success:
  assumes "rb2b_scoring w settings company contacts person_data scoring0 = (ev, Returned scoring)"
    and "openai_api_key settings \<noteq> []"
    and "\<forall>p. openai_post w (openai_api_key settings) p = Some (PDict sc)"
    and "map_of sc ''icp_score'' = Some (PInt n)"
  shows "scoring = retier (min 100 (n + 15)) sc"
  using assms
  by (auto simp: rb2b_scoring_def Let_def score_lead_openai_def rb2b_bonus_def py_get_def
           split: if_splits)

lemma save_companies_with_domain:
  assumes "save_lead lead_id company contacts visitor scoring ip identified source person d = Returned d' \<or>
           save_rb2b_lead lead_id company contacts scoring person raw_data d = Returned d'"
    and "truthy (py_get company ''domain'' PNone)"
  shows "companies_table d' = upsert_company company (companies_table d)"
  using assms save_lead_with_domain(1) save_rb2b_lead_with_domain(1) by blast

lemma save_keeps_leads:
  assumes "save_lead lead_id company contacts visitor scoring ip identified source person d = Returned d' \<or>
           save_rb2b_lead lead_id company contacts scoring person raw_data d = Returned d'"
  shows "set (table_rows (leads_table d)) \<subseteq> set (table_rows (leads_table d'))"
  using assms save_lead_lead_row save_rb2b_lead_lead_row by fastforce

lemma save_keeps_contacts:
  assumes "save_lead lead_id company contacts visitor scoring ip identified source person d = Returned d' \<or>
           save_rb2b_lead lead_id company contacts scoring person raw_data d = Returned d'"
  shows "set (table_rows (contacts_table d)) \<subseteq> set (table_rows (contacts_table d'))"
proof (cases "truthy (py_get company ''domain'' PNone)")
  case True
  then have "contacts_table d' =
      save_contacts (PInt (int (next_rowid (companies_table d)))) contacts (contacts_table d)"
    using assms save_lead_with_domain(2) save_rb2b_lead_with_domain(2) by blast
  then show ?thesis
    using rows_save_contacts [of "PInt (int (next_rowid (companies_table d)))" contacts "contacts_table d"]
    by auto
next
  case False
  then have "contacts_table d' = contacts_table d"
    using assms save_lead_without_domain(2) save_rb2b_lead_without_domain(2) by blast
  then show ?thesis by simp
qed

lemma visitors_visit_stored_rows:
  "table_rows (visitors_table (database (visit_stored visitor ip st))) =
     table_rows (visitors_table (database st)) @
     [new_row visitors_schema (next_rowid (visitors_table (database st)))
        [(''session_id'', Val (PStr (v_session_id visitor))),
         (''ip_address'', Val (PStr ip)),
         (''pages_viewed'', Json (PList (map PDict (v_pages_viewed visitor)))),
         (''visit_duration'', Val (PInt (v_visit_duration visitor))),
         (''referrer'', Val (opt_str (v_referrer visitor))),
         (''user_agent'', Val (opt_str (v_user_agent visitor)))]]"
  by (simp add: database_visit_stored insert_row_def Let_def)

lemma other_tables_visit_stored:
  "leads_table (database (visit_stored visitor ip st)) = leads_table (database st)"
  "companies_table (database (visit_stored visitor ip st)) = companies_table (database st)"
  "contacts_table (database (visit_stored visitor ip st)) = contacts_table (database st)"
  by (simp_all add: database_visit_stored)

lemma save_lead_keeps_visitors:
  assumes "save_lead lead_id company contacts visitor scoring ip identified source person d = Returned d'"
  shows "visitors_table d' = visitors_table d"
  by (cases "truthy (py_get company ''domain'' PNone)")
     (simp_all add: save_lead_with_domain(3) [OF assms] save_lead_without_domain(3) [OF assms])

lemma process_visitor_overflow:
  "\<not> in_int64 (v_visit_duration visitor) \<Longrightarrow>
     process_visitor w settings now visitor client_ip st0 = (st0, Raised OverflowError)"
  by (simp add: process_visitor_def save_visitor_def Let_def)

lemma process_visitor_skipped:
  "in_int64 (v_visit_duration visitor) \<Longrightarrow> skip_ip (effective_ip visitor client_ip) \<Longrightarrow>
     process_visitor w settings now visitor client_ip st0 =
       (visit_stored visitor (effective_ip visitor client_ip) st0, Returned ())"
  by (simp add: process_visitor_def save_visitor_def Let_def)

lemma process_visitor_Returned_in_range:
  "process_visitor w settings now visitor client_ip st0 = (st', Returned u) \<Longrightarrow>
     in_int64 (v_visit_duration visitor)"
  using process_visitor_overflow [of visitor w settings now client_ip st0] by fastforce

lemma process_visitor_Raised:
  assumes "process_visitor w settings now visitor client_ip st0 = (st', Raised e)"
    and "in_int64 (v_visit_duration visitor)"
  shows "\<exists>ev. st' = emit ev (visit_stored visitor (effective_ip visitor client_ip) st0) \<and>
              filter is_slack ev = []"
  using assms
  apply (cases "skip_ip (effective_ip visitor client_ip)")
   apply (simp add: process_visitor_skipped)
  unfolding process_visitor_def Let_def save_visitor_def
  apply (simp split: outcome.splits prod.splits)
   apply (clarsimp simp: database_emit)
   apply (intro exI conjI)
    apply (rule refl)
   apply (simp add: no_slack_lookup no_slack_enrich_or_shell no_slack_find_contacts
      no_slack_visitor_scoring)
  apply (clarsimp simp: database_emit)
  apply (intro exI conjI)
   apply (rule refl)
  apply (simp add: no_slack_lookup no_slack_enrich_or_shell no_slack_find_contacts
      no_slack_visitor_scoring)
  done

lemma process_visitor_Returned:
  assumes "process_visitor w settings now visitor client_ip st0 = (st', Returned u)"
    and "\<not> skip_ip (effective_ip visitor client_ip)"
  shows "\<exists>company contacts scoring ev d.
           (\<exists>ev4. visitor_scoring w settings visitor company contacts
                    (case snd (lookup_company_from_ip w (effective_ip visitor client_ip)
                                 (ipinfo_token settings)) of
                       Success data \<Rightarrow> ip_company_name data | Failure \<Rightarrow> [])
                    (effective_ip visitor client_ip) = (ev4, Returned scoring)) \<and>
           save_lead (''lead_'' @ str_int now @ ''_'' @ take 8 (v_session_id visitor))
             company contacts visitor scoring (effective_ip visitor client_ip)
             (case snd (lookup_company_from_ip w (effective_ip visitor client_ip)
                          (ipinfo_token settings)) of
                Success data \<Rightarrow> ip_company_name data | Failure \<Rightarrow> [])
             ''tracking'' []
             (database (visit_stored visitor (effective_ip visitor client_ip) st0)) = Returned d \<and>
           st' = notify_if_hot w settings company scoring (effective_ip visitor client_ip) []
                   (emit [Lead_committed (''lead_'' @ str_int now @ ''_'' @ take 8 (v_session_id visitor))]
                      ((emit ev (visit_stored visitor (effective_ip visitor client_ip) st0))
                         \<lparr>database := d\<rparr>)) \<and>
           filter is_slack ev = []"
  using assms process_visitor_Returned_in_range [OF assms(1)]
  unfolding process_visitor_def Let_def save_visitor_def
  apply (simp split: outcome.splits prod.splits)
  apply (clarsimp simp: database_emit)
  apply (intro exI conjI)
     apply assumption
    apply assumption
   apply (rule refl)
  apply (simp add: no_slack_lookup no_slack_enrich_or_shell no_slack_find_contacts
      no_slack_visitor_scoring)
  done

lemma trace_database_update: "trace (st\<lparr>database := d\<rparr>) = trace st"
  by simp

lemma skip_ip_iff: "skip_ip ip \<longleftrightarrow> ip \<in> {[], ''127.0.0.1'', ''::1'', ''localhost''}"
  by (auto simp: skip_ip_def)

lemma visitor_row_cols:
  fixes visitor ip rid
  defines "row \<equiv> new_row visitors_schema rid
        [(''session_id'', Val (PStr (v_session_id visitor))),
         (''ip_address'', Val (PStr ip)),
         (''pages_viewed'', Json (PList (map PDict (v_pages_viewed visitor)))),
         (''visit_duration'', Val (PInt (v_visit_duration visitor))),
         (''referrer'', Val (opt_str (v_referrer visitor))),
         (''user_agent'', Val (opt_str (v_user_agent visitor)))]"
  shows "col row ''session_id'' = Val (PStr (v_session_id visitor))"
    and "col row ''ip_address'' = Val (PStr ip)"
    and "col row ''pages_viewed'' = Json (PList (map PDict (v_pages_viewed visitor)))"
    and "col row ''visit_duration'' = Val (PInt (v_visit_duration visitor))"
    and "col row ''referrer'' = Val (opt_str (v_referrer visitor))"
    and "col row ''user_agent'' = Val (opt_str (v_user_agent visitor))"
  by (simp_all add: row_def col_def new_row_def visitors_schema_def)

lemma process_visitor_after_save:
  assumes run: "process_visitor w settings now visitor client_ip st = (st', out)"
    and rng: "in_int64 (v_visit_duration visitor)"
  defines "sv \<equiv> visit_stored visitor (effective_ip visitor client_ip) st"
  shows "(\<exists>rest. trace st' = trace sv @ rest) \<and>
         visitors_table (database st') = visitors_table (database sv)"
proof (cases "skip_ip (effective_ip visitor client_ip)")
  case True
  with run rng show ?thesis
    by (simp add: process_visitor_skipped sv_def)
next
  case False
  show ?thesis
  proof (cases out)
    case (Raised e)
    from process_visitor_Raised [OF run [unfolded Raised] rng] show ?thesis
      by (auto simp: sv_def trace_emit database_emit)
  next
    case (Returned u)
    from process_visitor_Returned [OF run [unfolded Returned] False]
    obtain company contacts scoring ev d where
      sv: "save_lead (''lead_'' @ str_int now @ ''_'' @ take 8 (v_session_id visitor))
             company contacts visitor scoring (effective_ip visitor client_ip)
             (case snd (lookup_company_from_ip w (effective_ip visitor client_ip)
                          (ipinfo_token settings)) of
                Success data \<Rightarrow> ip_company_name data | Failure \<Rightarrow> [])
             ''tracking'' []
             (database (visit_stored visitor (effective_ip visitor client_ip) st)) = Returned d"
      and st': "st' = notify_if_hot w settings company scoring (effective_ip visitor client_ip) []
                   (emit [Lead_committed (''lead_'' @ str_int now @ ''_'' @ take 8 (v_session_id visitor))]
                      ((emit ev (visit_stored visitor (effective_ip visitor client_ip) st))
                         \<lparr>database := d\<rparr>))"
      by blast
    have "visitors_table (database st') = visitors_table (database sv)"
      using save_lead_keeps_visitors [OF sv]
      by (simp add: st' database_notify_if_hot database_emit sv_def)
    moreover have "\<exists>rest. trace st' = trace sv @ rest"
      by (simp add: st' trace_notify_if_hot trace_emit sv_def)
    ultimately show ?thesis by simp
  qed
qed

lemma visitor_scoring_default:
  assumes "visitor_scoring w settings visitor company contacts identified ip = (ev, Returned scoring)"
    and "openai_api_key settings = [] \<or> (\<forall>p. openai_post w (openai_api_key settings) p = None)"
  shows "scoring = visitor_default_scoring identified ip"
  using assms
  by (auto simp: visitor_scoring_def Let_def score_lead_openai_def split: if_splits)

lemma rb2b_scoring_default:
  assumes "rb2b_scoring w settings company contacts person_data scoring0 = (ev, Returned scoring)"
    and "openai_api_key settings = [] \<or> (\<forall>p. openai_post w (openai_api_key settings) p = None)"
  shows "scoring = scoring0"
  using assms
  by (auto simp: rb2b_scoring_def Let_def score_lead_openai_def split: if_splits)

lemma visitor_default_scoring_fields:
  "py_get (visitor_default_scoring identified ip) ''icp_score'' a = PInt 30"
  "py_get (visitor_default_scoring identified ip) ''tier'' b = PStr ''cold''"
  "py_get (visitor_default_scoring identified ip) ''recommended_action'' c = PStr ''skip''"
  "py_get (visitor_default_scoring identified ip) ''urgency'' d = PStr ''low''"
  "py_get (visitor_default_scoring identified ip) ''research_summary'' e =
     PStr (''Visitor from '' @ (if identified \<noteq> [] then identified else ip))"
  "py_get (visitor_default_scoring identified ip) ''match_reasons'' f = PList []"
  "py_get (visitor_default_scoring identified ip) ''intent_signals'' g = PList []"
  "py_get (visitor_default_scoring identified ip) ''talking_points'' h = PList []"
  "py_get (visitor_default_scoring identified ip) ''email_draft'' i = PDict []"
  by (simp_all add: visitor_default_scoring_def py_get_def)

lemma rb2b_default_scoring_fields:
  "py_get (rb2b_default_scoring w fn first title cn company) ''icp_score'' a = PInt 60"
  "py_get (rb2b_default_scoring w fn first title cn company) ''tier'' b = PStr ''warm''"
  "py_get (rb2b_default_scoring w fn first title cn company) ''recommended_action'' c = PStr ''send_email''"
  "py_get (rb2b_default_scoring w fn first title cn company) ''urgency'' d = PStr ''medium''"
  by (simp_all add: rb2b_default_scoring_def py_get_def)

lemma process_rb2b_lead_no_lead:
  assumes "process_rb2b_lead w settings now rb2b_data st0 = (st', out)"
    and "\<forall>r. out \<noteq> Returned (Some r)"
  shows "\<exists>ev. st' = emit ev st0 \<and> filter is_slack ev = []"
proof -
  have e: "st0 = emit [] st0"
    by (simp add: emit_def)
  show ?thesis
    using assms
    unfolding process_rb2b_lead_def Let_def
    apply (simp split: if_splits outcome.splits prod.splits)
       apply (metis e filter.simps(1))
      apply (metis e filter.simps(1))
     apply (clarsimp simp: database_emit)
     apply (intro exI conjI)
      apply (rule refl)
     apply (simp add: no_slack_enrich_or_shell no_slack_find_contacts no_slack_rb2b_scoring)
    apply (clarsimp simp: database_emit)
    apply (intro exI conjI)
     apply (rule refl)
    apply (simp add: no_slack_enrich_or_shell no_slack_find_contacts no_slack_rb2b_scoring)
    apply auto
    done
qed

lemma tier_hot_iff:
  "py_get sc ''tier'' (PStr ''cold'') = PStr ''hot'' \<longleftrightarrow> py_get sc ''tier'' PNone = PStr ''hot''"
  "py_get sc ''tier'' (PStr ''warm'') = PStr ''hot'' \<longleftrightarrow> py_get sc ''tier'' PNone = PStr ''hot''"
  by (simp_all add: py_get_def split: option.splits)

lemma py_str_slack_fails: "py_str (w\<lparr>slack_fails := f\<rparr>) v = py_str w v"
  by (cases v) (simp_all add: py_str_def)

lemma hunter_contact_slack_fails: "hunter_contact (w\<lparr>slack_fails := f\<rparr>) e = hunter_contact w e"
  by (cases e) (simp_all add: hunter_contact_def py_str_slack_fails)

lemma hunter_contacts_slack_fails: "hunter_contacts (w\<lparr>slack_fails := f\<rparr>) es = hunter_contacts w es"
  by (induction es) (simp_all add: hunter_contact_slack_fails cong: option.case_cong)

lemma resolvers_slack_fails:
  "lookup_company_from_ip (w\<lparr>slack_fails := f\<rparr>) ip token = lookup_company_from_ip w ip token"
  "enrich_company_apollo (w\<lparr>slack_fails := f\<rparr>) domain key = enrich_company_apollo w domain key"
  "find_contacts_hunter (w\<lparr>slack_fails := f\<rparr>) domain key = find_contacts_hunter w domain key"
  "score_lead_openai (w\<lparr>slack_fails := f\<rparr>) company contacts visit_data person_data key =
     score_lead_openai w company contacts visit_data person_data key"
  by (simp_all add: lookup_company_from_ip_def enrich_company_apollo_def find_contacts_hunter_def
        score_lead_openai_def hunter_contacts_slack_fails
        cong: option.case_cong pyval.case_cong)

lemma stages_slack_fails:
  "enrich_or_shell (w\<lparr>slack_fails := f\<rparr>) settings domain shell = enrich_or_shell w settings domain shell"
  "find_contacts (w\<lparr>slack_fails := f\<rparr>) settings domain = find_contacts w settings domain"
  "visitor_scoring (w\<lparr>slack_fails := f\<rparr>) settings visitor company contacts identified ip =
     visitor_scoring w settings visitor company contacts identified ip"
  "rb2b_scoring (w\<lparr>slack_fails := f\<rparr>) settings company contacts person_data scoring =
     rb2b_scoring w settings company contacts person_data scoring"
  "rb2b_default_scoring (w\<lparr>slack_fails := f\<rparr>) fn first title cn company =
     rb2b_default_scoring w fn first title cn company"
  "slack_message (w\<lparr>slack_fails := f\<rparr>) company scoring person = slack_message w company scoring person"
  by (simp_all add: enrich_or_shell_def find_contacts_def visitor_scoring_def rb2b_scoring_def
        rb2b_default_scoring_def slack_message_def resolvers_slack_fails py_str_slack_fails Let_def
        cong: if_cong)

lemma notify_if_hot_slack_fails:
  "notify_if_hot (w\<lparr>slack_fails := f\<rparr>) settings company scoring ip person st =
     notify_if_hot w settings company scoring ip person st"
  by (simp add: notify_if_hot_def send_slack_alert_def Let_def stages_slack_fails)

lemma process_visitor_slack_fails:
  "process_visitor (w\<lparr>slack_fails := f\<rparr>) settings now visitor client_ip st =
     process_visitor w settings now visitor client_ip st"
  by (simp add: process_visitor_def resolvers_slack_fails stages_slack_fails notify_if_hot_slack_fails
        py_str_slack_fails Let_def
        cong: if_cong prod.case_cong outcome.case_cong)

lemma process_rb2b_lead_slack_fails:
  "process_rb2b_lead (w\<lparr>slack_fails := f\<rparr>) settings now rb2b_data st =
     process_rb2b_lead w settings now rb2b_data st"
  by (simp add: process_rb2b_lead_def resolvers_slack_fails stages_slack_fails notify_if_hot_slack_fails
        py_str_slack_fails Let_def
        cong: if_cong prod.case_cong outcome.case_cong)

lemma alerts_notify_if_hot:
  "length (filter is_slack (trace (notify_if_hot w settings company scoring ip person st))) =
     length (filter is_slack (trace st)) +
     (if slack_webhook_url settings \<noteq> [] \<and> py_get scoring ''tier'' PNone = PStr ''hot''
      then 1 else 0)"
  by (simp add: trace_notify_if_hot is_slack_def)

lemma alerts_visitor_run:
  assumes run: "process_visitor w settings now visitor client_ip st = (st', out)"
  shows "length (filter is_slack (trace st')) =
           length (filter is_slack (trace st)) +
           (if out = Returned () \<and>
               effective_ip visitor client_ip \<notin> {[], ''127.0.0.1'', ''::1'', ''localhost''} \<and>
               slack_webhook_url settings \<noteq> [] \<and>
               col (last (table_rows (leads_table (database st')))) ''tier'' = Val (PStr ''hot'')
            then 1 else 0)"
proof (cases "in_int64 (v_visit_duration visitor)")
  assume "\<not> in_int64 (v_visit_duration visitor)"
  with run show ?thesis
    by (auto simp: process_visitor_overflow)
next
  assume rng: "in_int64 (v_visit_duration visitor)"
  show ?thesis
proof (cases "skip_ip (effective_ip visitor client_ip)")
  case True
  with run rng show ?thesis
    by (auto simp: process_visitor_skipped trace_visit_stored is_slack_def skip_ip_iff)
next
  case False
  let ?ip = "effective_ip visitor client_ip"
  have ns: "?ip \<notin> {[], ''127.0.0.1'', ''::1'', ''localhost''}"
    using False by (simp add: skip_ip_iff)
  show ?thesis
  proof (cases out)
    case (Raised e)
    from process_visitor_Raised [OF run [unfolded Raised] rng] Raised show ?thesis
      by (auto simp: trace_emit trace_visit_stored is_slack_def)
  next
    case (Returned u)
    let ?identified = "case snd (lookup_company_from_ip w ?ip (ipinfo_token settings)) of
                         Success data \<Rightarrow> ip_company_name data | Failure \<Rightarrow> []"
    let ?lead_id = "''lead_'' @ str_int now @ ''_'' @ take 8 (v_session_id visitor)"
    from process_visitor_Returned [OF run [unfolded Returned] False]
    obtain company contacts scoring ev d where
      sv: "save_lead ?lead_id company contacts visitor scoring ?ip ?identified ''tracking'' []
             (database (visit_stored visitor ?ip st)) = Returned d"
      and st': "st' = notify_if_hot w settings company scoring ?ip []
                   (emit [Lead_committed ?lead_id] ((emit ev (visit_stored visitor ?ip st))\<lparr>database := d\<rparr>))"
      and ev: "filter is_slack ev = []"
      by blast
    have db: "database st' = d"
      by (simp add: st' database_notify_if_hot database_emit)
    from save_lead_lead_row [OF sv] obtain cid where
      "last (table_rows (leads_table d)) =
         new_row leads_schema (next_rowid (leads_table (database (visit_stored visitor ?ip st))))
           (lead_values ?lead_id cid visitor scoring ?ip ?identified ''tracking'' [])"
      by auto
    then have tier: "col (last (table_rows (leads_table (database st')))) ''tier'' = Val (PStr ''hot'') \<longleftrightarrow>
        py_get scoring ''tier'' PNone = PStr ''hot''"
      by (simp add: db lead_scoring_cols tier_hot_iff)
    have "length (filter is_slack (trace st')) =
            length (filter is_slack (trace st)) +
            (if slack_webhook_url settings \<noteq> [] \<and> py_get scoring ''tier'' PNone = PStr ''hot''
             then 1 else 0)"
      unfolding st' alerts_notify_if_hot
      by (simp add: trace_emit trace_visit_stored ev is_slack_def)
    then show ?thesis
      using Returned ns tier by simp
  qed
qed
qed

lemma alerts_rb2b_run:
  assumes run: "process_rb2b_lead w settings now rb2b_data st = (st', out)"
  shows "length (filter is_slack (trace st')) =
           length (filter is_slack (trace st)) +
           (if (\<exists>r. out = Returned (Some r)) \<and> slack_webhook_url settings \<noteq> [] \<and>
               col (last (table_rows (leads_table (database st')))) ''tier'' = Val (PStr ''hot'')
            then 1 else 0)"
proof (cases "\<exists>r. out = Returned (Some r)")
  case False
  then have "\<forall>r. out \<noteq> Returned (Some r)" by simp
  from process_rb2b_lead_no_lead [OF run this] False show ?thesis
    by (auto simp: trace_emit)
next
  case True
  then obtain r where out: "out = Returned (Some r)" by blast
  from process_rb2b_lead_Some [OF run [unfolded out]]
  obtain contacts ev d where
    sv: "save_rb2b_lead (r_lead_id r) (r_company r) contacts (r_scoring r) (r_person r) rb2b_data
           (database st) = Returned d"
    and st': "st' = notify_if_hot w settings (r_company r) (r_scoring r) [] (r_person r)
                      (emit [Lead_committed (r_lead_id r)] ((emit ev st)\<lparr>database := d\<rparr>))"
    and ev: "filter is_slack ev = []"
    by blast
  have db: "database st' = d"
    by (simp add: st' database_notify_if_hot database_emit)
  from save_rb2b_lead_lead_row [OF sv] obtain cid where
    "last (table_rows (leads_table d)) =
       new_row leads_schema (next_rowid (leads_table (database st)))
         (rb2b_lead_values (r_lead_id r) cid (r_company r) (r_scoring r) (r_person r))"
    by auto
  then have tier: "col (last (table_rows (leads_table (database st')))) ''tier'' = Val (PStr ''hot'') \<longleftrightarrow>
      py_get (r_scoring r) ''tier'' PNone = PStr ''hot''"
    by (simp add: db rb2b_lead_scoring_cols tier_hot_iff)
  have "length (filter is_slack (trace st')) =
          length (filter is_slack (trace st)) +
          (if slack_webhook_url settings \<noteq> [] \<and> py_get (r_scoring r) ''tier'' PNone = PStr ''hot''
           then 1 else 0)"
    unfolding st' alerts_notify_if_hot
    by (simp add: trace_emit ev is_slack_def)
  then show ?thesis
    using out tier by simp
qed





lemma company_row_cols:
  fixes company rid
  defines "row \<equiv> new_row companies_schema rid (company_values company)"
  shows "col row ''name'' = Val (py_get company ''name'' PNone)"
    and "col row ''industry'' = Val (py_get company ''industry'' PNone)"
    and "col row ''employee_count'' = Val (py_get company ''employee_count'' (PInt 0))"
    and "col row ''country'' = Val (py_get company ''country'' PNone)"
    and "col row ''city'' = Val (py_get company ''city'' PNone)"
    and "col row ''description'' = Val (py_get company ''description'' PNone)"
    and "col row ''funding_stage'' = Val (py_get company ''funding_stage'' PNone)"
    and "col row ''total_funding'' = Val (py_get company ''total_funding'' (PInt 0))"
    and "col row ''linkedin_url'' = Val (py_get company ''linkedin_url'' PNone)"
    and "col row ''enriched_data'' = Json (PDict company)"
  by (simp_all add: row_def col_def new_row_def companies_schema_def company_values_def)

section \<open>The claims\<close>

text \<open>
  Claim C1. On the identified-person pathway, when the scoring engine succeeds with the raw
  score \<open>n\<close>, the lead that the run stores has the score \<open>min(100, n + 15)\<close>, and its tier
  is derived from that score: \<open>hot\<close> from 70, \<open>warm\<close> from 50, and below 50 the tier that
  the engine returned (the column value \<open>warm\<close> that \<^verbatim>\<open>save_rb2b_lead\<close> passes when the
  engine returned none). The witness runs the raw scores 60 and 90: the stored leads have 75
  and 100, both \<open>hot\<close>.
\<close>

theorem rb2b_bonus_persisted:
  assumes run: "process_rb2b_lead w settings now rb2b_data st = (st', Returned (Some r))"
    and key: "openai_api_key settings \<noteq> []"
    and engine: "\<forall>p. openai_post w (openai_api_key settings) p = Some (PDict sc)"
    and raw: "map_of sc ''icp_score'' = Some (PInt n)"
  shows "\<exists>row. table_rows (leads_table (database st')) =
                 table_rows (leads_table (database st)) @ [row] \<and>
               col row ''lead_id'' = Val (PStr (r_lead_id r)) \<and>
               col row ''icp_score'' = Val (PInt (min 100 (n + 15))) \<and>
               col row ''tier'' =
                 Val (if 70 \<le> min 100 (n + 15) then PStr ''hot''
                      else if 50 \<le> min 100 (n + 15) then PStr ''warm''
                      else py_get sc ''tier'' (PStr ''warm''))"
proof -
  from process_rb2b_lead_Some [OF run]
  obtain fn first title cn contacts ev d ev3 where
    sc: "rb2b_scoring w settings (r_company r) contacts (r_person r)
           (rb2b_default_scoring w fn first title cn (r_company r)) = (ev3, Returned (r_scoring r))"
    and sv: "save_rb2b_lead (r_lead_id r) (r_company r) contacts (r_scoring r) (r_person r) rb2b_data
               (database st) = Returned d"
    and st': "st' = notify_if_hot w settings (r_company r) (r_scoring r) [] (r_person r)
                      (emit [Lead_committed (r_lead_id r)] ((emit ev st)\<lparr>database := d\<rparr>))"
    by blast
  have db: "database st' = d"
    by (simp add: st' database_notify_if_hot database_emit)
  have scoring: "r_scoring r = retier (min 100 (n + 15)) sc"
    using rb2b_scoring_success [OF sc key engine raw] .
  from save_rb2b_lead_lead_row [OF sv] obtain cid where
    rows: "table_rows (leads_table d) =
             table_rows (leads_table (database st)) @
             [new_row leads_schema (next_rowid (leads_table (database st)))
                (rb2b_lead_values (r_lead_id r) cid (r_company r) (r_scoring r) (r_person r))]"
    by blast
  show ?thesis
    unfolding db rows
    by (rule exI, intro conjI, rule refl)
       (simp_all add: rb2b_lead_scoring_cols scoring retier_score retier_tier)
qed

theorem rb2b_bonus_persisted_witness:
  "(\<exists>st' r row. process_rb2b_lead (ex_world 60) ex_settings 1 ex_rb2b ex_state = (st', Returned (Some r)) \<and>
      table_rows (leads_table (database st')) = [row] \<and>
      col row ''icp_score'' = Val (PInt 75) \<and> col row ''tier'' = Val (PStr ''hot'')) \<and>
   (\<exists>st' r row. process_rb2b_lead (ex_world 90) ex_settings 1 ex_rb2b ex_state = (st', Returned (Some r)) \<and>
      table_rows (leads_table (database st')) = [row] \<and>
      col row ''icp_score'' = Val (PInt 100) \<and> col row ''tier'' = Val (PStr ''hot''))"
proof -
  have key: "openai_api_key ex_settings \<noteq> []"
    by (simp add: ex_settings_def)
  have init: "table_rows (leads_table (database ex_state)) = []"
    by (simp add: ex_state_def empty_db_def empty_table_def)
  have a: "\<exists>st' r row. process_rb2b_lead (ex_world n) ex_settings 1 ex_rb2b ex_state = (st', Returned (Some r)) \<and>
      table_rows (leads_table (database st')) = [row] \<and>
      col row ''icp_score'' = Val (PInt (min 100 (n + 15))) \<and> col row ''tier'' = Val (PStr ''hot'')"
    if n: "55 \<le> n"
      and ret: "case snd (process_rb2b_lead (ex_world n) ex_settings 1 ex_rb2b ex_state) of
                  Returned (Some r) \<Rightarrow> True | _ \<Rightarrow> False" for n
  proof -
    from ret obtain st' r where
      run: "process_rb2b_lead (ex_world n) ex_settings 1 ex_rb2b ex_state = (st', Returned (Some r))"
      by (cases "process_rb2b_lead (ex_world n) ex_settings 1 ex_rb2b ex_state")
         (auto split: outcome.splits option.splits)
    have engine: "\<forall>p. openai_post (ex_world n) (openai_api_key ex_settings) p = Some (PDict (ex_answer n))"
      by (simp add: ex_world_def)
    have raw: "map_of (ex_answer n) ''icp_score'' = Some (PInt n)"
      by (simp add: ex_answer_def)
    from rb2b_bonus_persisted [OF run key engine raw] n run init show ?thesis
      by auto
  qed
  have r60: "case snd (process_rb2b_lead (ex_world 60) ex_settings 1 ex_rb2b ex_state) of
               Returned (Some r) \<Rightarrow> True | _ \<Rightarrow> False"
    by code_simp
  have r90: "case snd (process_rb2b_lead (ex_world 90) ex_settings 1 ex_rb2b ex_state) of
               Returned (Some r) \<Rightarrow> True | _ \<Rightarrow> False"
    by code_simp
  from a [OF _ r60] a [OF _ r90] show ?thesis
    by simp
qed

text \<open>
  Claim C2. An identified-person event whose email is absent or the empty string, under
  both of its keys, ends the run at once: the run returns \<open>None\<close> and leaves the state as
  it was, so no row of any table and no request, the notification included, comes from it.
\<close>

theorem rb2b_without_email_has_no_effect:
  assumes "map_of rb2b_data ''Email'' = None \<or> map_of rb2b_data ''Email'' = Some (PStr [])"
    and "map_of rb2b_data ''email'' = None \<or> map_of rb2b_data ''email'' = Some (PStr [])"
  shows "process_rb2b_lead w settings now rb2b_data st = (st, Returned None)"
proof -
  have "\<not> truthy (rb2b_field rb2b_data ''Email'' ''email'')"
    using assms by (auto simp: rb2b_field_def py_or_def py_get_def)
  then show ?thesis
    by (simp add: process_rb2b_lead_def Let_def)
qed

theorem rb2b_without_email_has_no_effect_witness:
  "map_of ex_rb2b_no_email ''Email'' = None \<and> map_of ex_rb2b_no_email ''email'' = Some (PStr []) \<and>
   process_rb2b_lead (ex_world 60) ex_settings 1 ex_rb2b_no_email ex_state = (ex_state, Returned None)"
proof -
  have a: "map_of ex_rb2b_no_email ''Email'' = None"
    by (simp add: ex_rb2b_no_email_def)
  have b: "map_of ex_rb2b_no_email ''email'' = Some (PStr [])"
    by (simp add: ex_rb2b_no_email_def)
  from rb2b_without_email_has_no_effect [OF disjI1 [OF a] disjI2 [OF b]] a b show ?thesis
    by simp
qed

text \<open>
  Claim C3, as amended. For every event of the anonymous pathway whose visit duration fits
  a signed 64-bit integer, the run first commits the raw visit to the \<open>visitors\<close> table:
  the commit is the first event of the run, before every request of the enrichment, and the
  row is there whatever happens later. When the effective IP is empty, \<open>127.0.0.1\<close>,
  \<open>::1\<close> or \<open>localhost\<close>, the run ends after that commit: it returns, makes no request
  and leaves the other three tables as they were, so no lead is created.
\<close>

theorem visitor_saved_first_and_local_ip_stops:
  assumes run: "process_visitor w settings now visitor client_ip st = (st', out)"
    and fits: "- (2 ^ 63) \<le> v_visit_duration visitor \<and> v_visit_duration visitor < 2 ^ 63"
  shows "(\<exists>rest. trace st' = trace st @ Visitor_committed # rest) \<and>
         (\<exists>row. table_rows (visitors_table (database st')) =
                  table_rows (visitors_table (database st)) @ [row] \<and>
                col row ''session_id'' = Val (PStr (v_session_id visitor)) \<and>
                col row ''ip_address'' = Val (PStr (effective_ip visitor client_ip)) \<and>
                col row ''pages_viewed'' = Json (PList (map PDict (v_pages_viewed visitor))) \<and>
                col row ''visit_duration'' = Val (PInt (v_visit_duration visitor)) \<and>
                col row ''referrer'' = Val (opt_str (v_referrer visitor)) \<and>
                col row ''user_agent'' = Val (opt_str (v_user_agent visitor))) \<and>
         (effective_ip visitor client_ip \<in> {[], ''127.0.0.1'', ''::1'', ''localhost''} \<longrightarrow>
            out = Returned () \<and>
            trace st' = trace st @ [Visitor_committed] \<and>
            leads_table (database st') = leads_table (database st) \<and>
            companies_table (database st') = companies_table (database st) \<and>
            contacts_table (database st') = contacts_table (database st))"
proof -
  let ?ip = "effective_ip visitor client_ip"
  have rng: "in_int64 (v_visit_duration visitor)"
    using fits by (simp add: in_int64_def)
  from process_visitor_after_save [OF run rng] obtain rest where
    tr: "trace st' = trace (visit_stored visitor ?ip st) @ rest"
    and vs: "visitors_table (database st') = visitors_table (database (visit_stored visitor ?ip st))"
    by blast
  have a: "\<exists>rest. trace st' = trace st @ Visitor_committed # rest"
    using tr by (simp add: trace_visit_stored)
  have b: "\<exists>row. table_rows (visitors_table (database st')) =
                  table_rows (visitors_table (database st)) @ [row] \<and>
                col row ''session_id'' = Val (PStr (v_session_id visitor)) \<and>
                col row ''ip_address'' = Val (PStr ?ip) \<and>
                col row ''pages_viewed'' = Json (PList (map PDict (v_pages_viewed visitor))) \<and>
                col row ''visit_duration'' = Val (PInt (v_visit_duration visitor)) \<and>
                col row ''referrer'' = Val (opt_str (v_referrer visitor)) \<and>
                col row ''user_agent'' = Val (opt_str (v_user_agent visitor))"
    unfolding vs visitors_visit_stored_rows
    by (rule exI, intro conjI, rule refl) (simp_all only: visitor_row_cols)
  have c: "out = Returned () \<and> trace st' = trace st @ [Visitor_committed] \<and>
           leads_table (database st') = leads_table (database st) \<and>
           companies_table (database st') = companies_table (database st) \<and>
           contacts_table (database st') = contacts_table (database st)"
    if "skip_ip ?ip"
    using run that rng
    by (auto simp: process_visitor_skipped other_tables_visit_stored trace_visit_stored)
  from a b c show ?thesis
    unfolding skip_ip_iff by blast
qed

theorem visitor_saved_first_and_local_ip_stops_witness:
  "(\<exists>st' row. process_visitor (ex_world 60) ex_settings 1 ex_local_visitor ''203.0.113.9'' ex_state =
                  (st', Returned ()) \<and>
      effective_ip ex_local_visitor ''203.0.113.9'' = ''127.0.0.1'' \<and>
      v_visit_duration ex_local_visitor = 95 \<and>
      trace st' = [Visitor_committed] \<and>
      table_rows (visitors_table (database st')) = [row] \<and>
      col row ''ip_address'' = Val (PStr ''127.0.0.1'') \<and>
      table_rows (leads_table (database st')) = []) \<and>
   (\<exists>st' rest row. process_visitor (ex_world 60) ex_settings 1 ex_visitor ''203.0.113.9'' ex_state =
                  (st', Returned ()) \<and>
      v_visit_duration ex_visitor = 95 \<and>
      trace st' = Visitor_committed # rest \<and> length rest = 5 \<and>
      table_rows (visitors_table (database st')) = [row] \<and>
      col row ''ip_address'' = Val (PStr ''23.227.38.32''))"
proof -
  have init: "trace ex_state = []" "table_rows (visitors_table (database ex_state)) = []"
    "table_rows (leads_table (database ex_state)) = []"
    by (simp_all add: ex_state_def empty_db_def empty_table_def)
  have ip1: "effective_ip ex_local_visitor ''203.0.113.9'' = ''127.0.0.1''"
    by (simp add: effective_ip_def ex_local_visitor_def ex_visitor_def)
  have ip2: "effective_ip ex_visitor ''203.0.113.9'' = ''23.227.38.32''"
    by (simp add: effective_ip_def ex_visitor_def)
  have d1: "v_visit_duration ex_local_visitor = 95"
    by (simp add: ex_local_visitor_def ex_visitor_def)
  have d2: "v_visit_duration ex_visitor = 95"
    by (simp add: ex_visitor_def)
  have f1: "- (2 ^ 63) \<le> v_visit_duration ex_local_visitor \<and> v_visit_duration ex_local_visitor < 2 ^ 63"
    by (simp add: d1)
  have f2: "- (2 ^ 63) \<le> v_visit_duration ex_visitor \<and> v_visit_duration ex_visitor < 2 ^ 63"
    by (simp add: d2)
  obtain st1 out1 where r1: "process_visitor (ex_world 60) ex_settings 1 ex_local_visitor ''203.0.113.9''
      ex_state = (st1, out1)"
    by (cases "process_visitor (ex_world 60) ex_settings 1 ex_local_visitor ''203.0.113.9'' ex_state")
  from visitor_saved_first_and_local_ip_stops [OF r1 f1] ip1 init
  have a: "\<exists>st' row. process_visitor (ex_world 60) ex_settings 1 ex_local_visitor ''203.0.113.9'' ex_state =
                  (st', Returned ()) \<and>
      effective_ip ex_local_visitor ''203.0.113.9'' = ''127.0.0.1'' \<and>
      v_visit_duration ex_local_visitor = 95 \<and>
      trace st' = [Visitor_committed] \<and>
      table_rows (visitors_table (database st')) = [row] \<and>
      col row ''ip_address'' = Val (PStr ''127.0.0.1'') \<and>
      table_rows (leads_table (database st')) = []"
    using r1 d1 by auto
  have ret: "case process_visitor (ex_world 60) ex_settings 1 ex_visitor ''203.0.113.9'' ex_state of
               (st', out) \<Rightarrow> out = Returned () \<and> length (trace st') = 6"
    by code_simp
  then obtain st2 where r2: "process_visitor (ex_world 60) ex_settings 1 ex_visitor ''203.0.113.9''
      ex_state = (st2, Returned ())" and len: "length (trace st2) = 6"
    by (auto split: prod.splits)
  from visitor_saved_first_and_local_ip_stops [OF r2 f2] ip2 init len
  have b: "\<exists>st' rest row. process_visitor (ex_world 60) ex_settings 1 ex_visitor ''203.0.113.9'' ex_state =
                  (st', Returned ()) \<and>
      v_visit_duration ex_visitor = 95 \<and>
      trace st' = Visitor_committed # rest \<and> length rest = 5 \<and>
      table_rows (visitors_table (database st')) = [row] \<and>
      col row ''ip_address'' = Val (PStr ''23.227.38.32'')"
    using r2 d2 by auto
  from a b show ?thesis by (rule conjI)
qed

text \<open>
  Claim C3 as first stated, for every event, fails: the visit duration of the request body
  is an unbounded integer, and for a duration of \<open>2^63\<close> the driver refuses the parameter.
  The run raises \<^verbatim>\<open>OverflowError\<close> in \<^verbatim>\<open>save_visitor\<close> and leaves the state as it
  was, with no row in \<open>visitors\<close>.
\<close>

theorem long_visit_not_persisted:
  "v_visit_duration ex_long_visitor = 2 ^ 63 \<and>
   process_visitor (ex_world 60) ex_settings 1 ex_long_visitor ''203.0.113.9'' ex_state =
     (ex_state, Raised OverflowError) \<and>
   table_rows (visitors_table (database ex_state)) = []"
proof -
  have d: "v_visit_duration ex_long_visitor = 2 ^ 63"
    by (simp add: ex_long_visitor_def)
  have "\<not> in_int64 (v_visit_duration ex_long_visitor)"
    by (simp add: d in_int64_def)
  then have "process_visitor (ex_world 60) ex_settings 1 ex_long_visitor ''203.0.113.9'' ex_state =
     (ex_state, Raised OverflowError)"
    by (rule process_visitor_overflow)
  moreover have "table_rows (visitors_table (database ex_state)) = []"
    by (simp add: ex_state_def empty_db_def empty_table_def)
  ultimately show ?thesis
    using d by simp
qed




text \<open>
  Claim C5. When no scoring credential is configured, or the scoring engine fails, a run
  that stores a lead stores the default scoring of its pathway. On the anonymous pathway:
  score 30, tier \<open>cold\<close>, action \<open>skip\<close>, urgency \<open>low\<close>, the summary \<open>Visitor from\<close>
  followed by the organization found for the IP or else the IP, empty lists of reasons,
  signals and talking points and an empty email draft. On the identified-person pathway:
  score 60, tier \<open>warm\<close>, action \<open>send_email\<close>, urgency \<open>medium\<close>.
\<close>

theorem default_scoring_persisted:
  assumes nokey: "openai_api_key settings = [] \<or>
                  (\<forall>p. openai_post w (openai_api_key settings) p = None)"
  shows "(process_visitor w settings now visitor client_ip st = (st', Returned ()) \<and>
          effective_ip visitor client_ip \<notin> {[], ''127.0.0.1'', ''::1'', ''localhost''} \<longrightarrow>
          (\<exists>row name.
             table_rows (leads_table (database st')) = table_rows (leads_table (database st)) @ [row] \<and>
             col row ''icp_score'' = Val (PInt 30) \<and>
             col row ''tier'' = Val (PStr ''cold'') \<and>
             col row ''recommended_action'' = Val (PStr ''skip'') \<and>
             col row ''urgency'' = Val (PStr ''low'') \<and>
             col row ''research_summary'' = Val (PStr (''Visitor from '' @ name)) \<and>
             (case snd (lookup_company_from_ip w (effective_ip visitor client_ip) (ipinfo_token settings)) of
                Success data \<Rightarrow>
                  name = (if ip_company_name data \<noteq> [] then ip_company_name data
                          else effective_ip visitor client_ip)
              | Failure \<Rightarrow> name = effective_ip visitor client_ip) \<and>
             col row ''match_reasons'' = Json (PList []) \<and>
             col row ''intent_signals'' = Json (PList []) \<and>
             col row ''talking_points'' = Json (PList []) \<and>
             col row ''email_draft'' = Json (PDict []))) \<and>
         (process_rb2b_lead w settings now rb2b_data pst = (pst', Returned (Some r)) \<longrightarrow>
          (\<exists>row.
             table_rows (leads_table (database pst')) = table_rows (leads_table (database pst)) @ [row] \<and>
             col row ''icp_score'' = Val (PInt 60) \<and>
             col row ''tier'' = Val (PStr ''warm'') \<and>
             col row ''recommended_action'' = Val (PStr ''send_email'') \<and>
             col row ''urgency'' = Val (PStr ''medium'')))"
proof (intro conjI impI)
  let ?ip = "effective_ip visitor client_ip"
  let ?identified = "case snd (lookup_company_from_ip w ?ip (ipinfo_token settings)) of
                       Success data \<Rightarrow> ip_company_name data | Failure \<Rightarrow> []"
  let ?lead_id = "''lead_'' @ str_int now @ ''_'' @ take 8 (v_session_id visitor)"
  assume a: "process_visitor w settings now visitor client_ip st = (st', Returned ()) \<and>
             ?ip \<notin> {[], ''127.0.0.1'', ''::1'', ''localhost''}"
  then have run: "process_visitor w settings now visitor client_ip st = (st', Returned ())"
    and ns: "\<not> skip_ip ?ip"
    by (simp_all add: skip_ip_iff)
  from process_visitor_Returned [OF run ns]
  obtain company contacts scoring ev d ev4 where
    sc: "visitor_scoring w settings visitor company contacts ?identified ?ip = (ev4, Returned scoring)"
    and sv: "save_lead ?lead_id company contacts visitor scoring ?ip ?identified ''tracking'' []
               (database (visit_stored visitor ?ip st)) = Returned d"
    and st': "st' = notify_if_hot w settings company scoring ?ip []
                      (emit [Lead_committed ?lead_id] ((emit ev (visit_stored visitor ?ip st))\<lparr>database := d\<rparr>))"
    by blast
  have db: "database st' = d"
    by (simp add: st' database_notify_if_hot database_emit)
  have scoring: "scoring = visitor_default_scoring ?identified ?ip"
    using visitor_scoring_default [OF sc nokey] .
  from save_lead_lead_row [OF sv] obtain cid where
    rows: "table_rows (leads_table d) =
             table_rows (leads_table (database st)) @
             [new_row leads_schema (next_rowid (leads_table (database (visit_stored visitor ?ip st))))
                (lead_values ?lead_id cid visitor scoring ?ip ?identified ''tracking'' [])]"
    by (auto simp: other_tables_visit_stored)
  have name: "case snd (lookup_company_from_ip w ?ip (ipinfo_token settings)) of
                Success data \<Rightarrow>
                  (if ?identified \<noteq> [] then ?identified else ?ip) =
                    (if ip_company_name data \<noteq> [] then ip_company_name data else ?ip)
              | Failure \<Rightarrow> (if ?identified \<noteq> [] then ?identified else ?ip) = ?ip"
    by (simp split: envelope.splits)
  show "\<exists>row name.
             table_rows (leads_table (database st')) = table_rows (leads_table (database st)) @ [row] \<and>
             col row ''icp_score'' = Val (PInt 30) \<and>
             col row ''tier'' = Val (PStr ''cold'') \<and>
             col row ''recommended_action'' = Val (PStr ''skip'') \<and>
             col row ''urgency'' = Val (PStr ''low'') \<and>
             col row ''research_summary'' = Val (PStr (''Visitor from '' @ name)) \<and>
             (case snd (lookup_company_from_ip w ?ip (ipinfo_token settings)) of
                Success data \<Rightarrow>
                  name = (if ip_company_name data \<noteq> [] then ip_company_name data else ?ip)
              | Failure \<Rightarrow> name = ?ip) \<and>
             col row ''match_reasons'' = Json (PList []) \<and>
             col row ''intent_signals'' = Json (PList []) \<and>
             col row ''talking_points'' = Json (PList []) \<and>
             col row ''email_draft'' = Json (PDict [])"
    unfolding db rows
    apply (rule exI, rule exI [of _ "if ?identified \<noteq> [] then ?identified else ?ip"])
    apply (intro conjI)
              apply (rule refl)
             apply (simp_all only: lead_scoring_cols scoring visitor_default_scoring_fields name)
    done
next
  assume run: "process_rb2b_lead w settings now rb2b_data pst = (pst', Returned (Some r))"
  from process_rb2b_lead_Some [OF run]
  obtain fn first title cn contacts ev d ev3 where
    sc: "rb2b_scoring w settings (r_company r) contacts (r_person r)
           (rb2b_default_scoring w fn first title cn (r_company r)) = (ev3, Returned (r_scoring r))"
    and sv: "save_rb2b_lead (r_lead_id r) (r_company r) contacts (r_scoring r) (r_person r) rb2b_data
               (database pst) = Returned d"
    and st': "pst' = notify_if_hot w settings (r_company r) (r_scoring r) [] (r_person r)
                      (emit [Lead_committed (r_lead_id r)] ((emit ev pst)\<lparr>database := d\<rparr>))"
    by blast
  have db: "database pst' = d"
    by (simp add: st' database_notify_if_hot database_emit)
  have scoring: "r_scoring r = rb2b_default_scoring w fn first title cn (r_company r)"
    using rb2b_scoring_default [OF sc nokey] .
  from save_rb2b_lead_lead_row [OF sv] obtain cid where
    rows: "table_rows (leads_table d) =
             table_rows (leads_table (database pst)) @
             [new_row leads_schema (next_rowid (leads_table (database pst)))
                (rb2b_lead_values (r_lead_id r) cid (r_company r) (r_scoring r) (r_person r))]"
    by blast
  show "\<exists>row.
             table_rows (leads_table (database pst')) = table_rows (leads_table (database pst)) @ [row] \<and>
             col row ''icp_score'' = Val (PInt 60) \<and>
             col row ''tier'' = Val (PStr ''warm'') \<and>
             col row ''recommended_action'' = Val (PStr ''send_email'') \<and>
             col row ''urgency'' = Val (PStr ''medium'')"
    unfolding db rows
    by (rule exI, intro conjI, rule refl)
       (simp_all only: rb2b_lead_scoring_cols scoring rb2b_default_scoring_fields)
qed

theorem default_scoring_persisted_witness:
  "(\<exists>st' row. process_visitor (ex_world 60) ex_settings_no_openai 1 ex_visitor ''203.0.113.9'' ex_state =
                  (st', Returned ()) \<and>
      table_rows (leads_table (database st')) = [row] \<and>
      col row ''icp_score'' = Val (PInt 30) \<and> col row ''tier'' = Val (PStr ''cold'') \<and>
      col row ''recommended_action'' = Val (PStr ''skip'') \<and> col row ''urgency'' = Val (PStr ''low'') \<and>
      col row ''research_summary'' = Val (PStr ''Visitor from Shopify Inc'')) \<and>
   (\<exists>st' r row. process_rb2b_lead ex_world_scoring_down ex_settings 1 ex_rb2b ex_state =
                  (st', Returned (Some r)) \<and>
      table_rows (leads_table (database st')) = [row] \<and>
      col row ''icp_score'' = Val (PInt 60) \<and> col row ''tier'' = Val (PStr ''warm'') \<and>
      col row ''recommended_action'' = Val (PStr ''send_email'') \<and>
      col row ''urgency'' = Val (PStr ''medium''))"
proof -
  have init: "table_rows (leads_table (database ex_state)) = []"
    by (simp add: ex_state_def empty_db_def empty_table_def)
  have nk1: "openai_api_key ex_settings_no_openai = [] \<or>
             (\<forall>p. openai_post (ex_world 60) (openai_api_key ex_settings_no_openai) p = None)"
    by (simp add: ex_settings_no_openai_def ex_settings_def)
  have nk2: "openai_api_key ex_settings = [] \<or>
             (\<forall>p. openai_post ex_world_scoring_down (openai_api_key ex_settings) p = None)"
    by (simp add: ex_world_scoring_down_def)
  have ip: "effective_ip ex_visitor ''203.0.113.9'' = ''23.227.38.32''"
    by (simp add: effective_ip_def ex_visitor_def)
  have lk: "snd (lookup_company_from_ip (ex_world 60) ''23.227.38.32'' (ipinfo_token ex_settings_no_openai)) =
              Success \<lparr>ip_ip = ''23.227.38.32'', ip_company_name = ''Shopify Inc'',
                       ip_domain = ''shopify.com'', ip_city = PStr [], ip_region = PStr [],
                       ip_country = PStr ''CA'', ip_org = PStr ''14061 Shopify Inc''\<rparr>"
    by code_simp
  have "snd (process_visitor (ex_world 60) ex_settings_no_openai 1 ex_visitor ''203.0.113.9'' ex_state) =
          Returned ()"
    by code_simp
  then obtain st1 where r1: "process_visitor (ex_world 60) ex_settings_no_openai 1 ex_visitor
      ''203.0.113.9'' ex_state = (st1, Returned ())"
    by (cases "process_visitor (ex_world 60) ex_settings_no_openai 1 ex_visitor ''203.0.113.9'' ex_state")
       simp
  have "case snd (process_rb2b_lead ex_world_scoring_down ex_settings 1 ex_rb2b ex_state) of
          Returned (Some r) \<Rightarrow> True | _ \<Rightarrow> False"
    by code_simp
  then obtain st2 r where r2: "process_rb2b_lead ex_world_scoring_down ex_settings 1 ex_rb2b ex_state =
      (st2, Returned (Some r))"
    by (cases "process_rb2b_lead ex_world_scoring_down ex_settings 1 ex_rb2b ex_state")
       (auto split: outcome.splits option.splits)
  have a: "\<exists>st' row. process_visitor (ex_world 60) ex_settings_no_openai 1 ex_visitor ''203.0.113.9'' ex_state =
                  (st', Returned ()) \<and>
      table_rows (leads_table (database st')) = [row] \<and>
      col row ''icp_score'' = Val (PInt 30) \<and> col row ''tier'' = Val (PStr ''cold'') \<and>
      col row ''recommended_action'' = Val (PStr ''skip'') \<and> col row ''urgency'' = Val (PStr ''low'') \<and>
      col row ''research_summary'' = Val (PStr ''Visitor from Shopify Inc'')"
    using default_scoring_persisted [where now = 1 and visitor = ex_visitor
        and client_ip = "''203.0.113.9''" and st = ex_state and st' = st1, OF nk1, THEN conjunct1] r1 ip lk init
    by auto
  have b: "\<exists>st' r row. process_rb2b_lead ex_world_scoring_down ex_settings 1 ex_rb2b ex_state =
                  (st', Returned (Some r)) \<and>
      table_rows (leads_table (database st')) = [row] \<and>
      col row ''icp_score'' = Val (PInt 60) \<and> col row ''tier'' = Val (PStr ''warm'') \<and>
      col row ''recommended_action'' = Val (PStr ''send_email'') \<and>
      col row ''urgency'' = Val (PStr ''medium'')"
    using default_scoring_persisted [where now = 1 and rb2b_data = ex_rb2b
        and pst = ex_state and pst' = st2 and r = r, OF nk2, THEN conjunct2] r2 init
    by auto
  from a b show ?thesis by (rule conjI)
qed

text \<open>
  Claim C6, which the code does not meet. The table \<open>contacts\<close> has no \<^verbatim>\<open>UNIQUE\<close>
  constraint, so \<^verbatim>\<open>INSERT OR IGNORE\<close> never skips a row: the sample event processed
  twice, with the contact resolver answering the same contact both times, leaves two rows
  for that contact.
\<close>

theorem contacts_duplicated_on_resubmission:
  "(case process_rb2b_lead (ex_world 60) ex_settings 1 ex_rb2b ex_state of
      (st1, out1) \<Rightarrow>
        (case process_rb2b_lead (ex_world 60) ex_settings 2 ex_rb2b st1 of
           (st2, out2) \<Rightarrow>
             map (\<lambda>r. (col r ''name'', col r ''email''))
               (table_rows (contacts_table (database st2))))) =
   [(Val (PStr ''Ann Lee''), Val (PStr ''ann.lee@shopify.com'')),
    (Val (PStr ''Ann Lee''), Val (PStr ''ann.lee@shopify.com''))]"
  by code_simp

text \<open>
  Claim C7. The company upsert is keyed by the domain and the last write wins: after two
  saves with the same non-empty domain, through either pathway, the table holds exactly
  one row of that domain. It is the row that the statement builds from the second payload
  alone: each column of the statement holds the value of the second payload (\<open>NULL\<close> or
  the default of \<^verbatim>\<open>get\<close> where the payload has no such key), and nothing of the first
  payload is left.
\<close>

theorem company_upsert_last_write_wins:
  assumes "py_get c1 ''domain'' PNone = PStr dm" and "py_get c2 ''domain'' PNone = PStr dm"
    and "dm \<noteq> []"
    and "save_lead id1 c1 cs1 v1 sc1 ip1 idn1 src1 p1 d = Returned d1 \<or>
         save_rb2b_lead id1 c1 cs1 sc1 p1 raw1 d = Returned d1"
    and "save_lead id2 c2 cs2 v2 sc2 ip2 idn2 src2 p2 d1 = Returned d2 \<or>
         save_rb2b_lead id2 c2 cs2 sc2 p2 raw2 d1 = Returned d2"
  shows "\<exists>row. filter (\<lambda>r. col r ''domain'' = Val (PStr dm)) (table_rows (companies_table d2)) = [row] \<and>
           row = new_row companies_schema (next_rowid (companies_table d1)) (company_values c2) \<and>
           col row ''name'' = Val (py_get c2 ''name'' PNone) \<and>
           col row ''industry'' = Val (py_get c2 ''industry'' PNone) \<and>
           col row ''employee_count'' = Val (py_get c2 ''employee_count'' (PInt 0)) \<and>
           col row ''country'' = Val (py_get c2 ''country'' PNone) \<and>
           col row ''city'' = Val (py_get c2 ''city'' PNone) \<and>
           col row ''description'' = Val (py_get c2 ''description'' PNone) \<and>
           col row ''funding_stage'' = Val (py_get c2 ''funding_stage'' PNone) \<and>
           col row ''total_funding'' = Val (py_get c2 ''total_funding'' (PInt 0)) \<and>
           col row ''linkedin_url'' = Val (py_get c2 ''linkedin_url'' PNone) \<and>
           col row ''enriched_data'' = Json (PDict c2)"
proof -
  have t: "truthy (py_get c2 ''domain'' PNone)"
    using assms(2,3) by simp
  have "companies_table d2 = upsert_company c2 (companies_table d1)"
    using save_companies_with_domain [OF assms(5) t] .
  then have "filter (\<lambda>r. col r ''domain'' = Val (PStr dm)) (table_rows (companies_table d2)) =
               [new_row companies_schema (next_rowid (companies_table d1)) (company_values c2)]"
    using domain_rows_upsert_company [OF assms(2), of "companies_table d1"] by simp
  then show ?thesis
    by (intro exI [of _ "new_row companies_schema (next_rowid (companies_table d1)) (company_values c2)"]
          conjI)
       (simp_all only: company_row_cols)
qed

theorem company_upsert_last_write_wins_witness:
  "\<exists>d1 d2.
     save_lead ''lead_1_sess-012'' ex_company [ex_contact] ex_visitor (ex_answer 40) ''23.227.38.32''
       ''Acme'' ''tracking'' [] empty_db = Returned d1 \<and>
     save_rb2b_lead ''rb2b_2_ann'' ex_company_later [] (ex_answer 80) [] [] d1 = Returned d2 \<and>
     filter (\<lambda>r. col r ''domain'' = Val (PStr ''acme.com'')) (table_rows (companies_table d2)) =
       [new_row companies_schema 2 (company_values ex_company_later)] \<and>
     map (\<lambda>r. col r ''name'') (table_rows (companies_table d2)) = [Val (PStr ''Acme Corporation'')]"
proof -
  let ?s1 = "save_lead ''lead_1_sess-012'' ex_company [ex_contact] ex_visitor (ex_answer 40)
               ''23.227.38.32'' ''Acme'' ''tracking'' [] empty_db"
  have "case ?s1 of Returned d1 \<Rightarrow> True | _ \<Rightarrow> False"
    by code_simp
  then obtain d1 where s1: "?s1 = Returned d1"
    by (auto split: outcome.splits)
  let ?s2 = "save_rb2b_lead ''rb2b_2_ann'' ex_company_later [] (ex_answer 80) [] [] d1"
  have "case (case ?s1 of Returned d1 \<Rightarrow>
                save_rb2b_lead ''rb2b_2_ann'' ex_company_later [] (ex_answer 80) [] [] d1
              | Raised e \<Rightarrow> Raised e) of
          Returned d2 \<Rightarrow> next_rowid (companies_table (case ?s1 of Returned d1 \<Rightarrow> d1)) = 2 \<and>
             map (\<lambda>r. col r ''name'') (table_rows (companies_table d2)) = [Val (PStr ''Acme Corporation'')]
        | _ \<Rightarrow> False"
    by code_simp
  then obtain d2 where s2: "?s2 = Returned d2" and n: "next_rowid (companies_table d1) = 2"
    and nm: "map (\<lambda>r. col r ''name'') (table_rows (companies_table d2)) = [Val (PStr ''Acme Corporation'')]"
    unfolding s1 by (auto split: outcome.splits)
  have a: "py_get ex_company ''domain'' PNone = PStr ''acme.com''"
    by (simp add: ex_company_def py_get_def)
  have b: "py_get ex_company_later ''domain'' PNone = PStr ''acme.com''"
    by (simp add: ex_company_later_def py_get_def)
  have c: "''acme.com'' \<noteq> []" by simp
  from company_upsert_last_write_wins [OF a b c disjI1 [OF s1] disjI2 [OF s2]] n s1 s2 nm
  show ?thesis by simp
qed

text \<open>
  Claim C8. A run makes exactly one alert request when it stores a lead whose tier is
  \<open>hot\<close> and a webhook is configured, and none otherwise: not for another tier, not
  without a webhook, and not when the run stores no lead. Whether the post to the webhook
  fails has no effect on the run: its state and its outcome are the same.
\<close>

theorem alert_exactly_for_hot_leads:
  "(process_visitor w settings now visitor client_ip st = (st', out) \<longrightarrow>
      length (filter is_slack (trace st')) =
        length (filter is_slack (trace st)) +
        (if out = Returned () \<and>
            effective_ip visitor client_ip \<notin> {[], ''127.0.0.1'', ''::1'', ''localhost''} \<and>
            slack_webhook_url settings \<noteq> [] \<and>
            col (last (table_rows (leads_table (database st')))) ''tier'' = Val (PStr ''hot'')
         then 1 else 0)) \<and>
   (process_rb2b_lead w settings now rb2b_data pst = (pst', pout) \<longrightarrow>
      length (filter is_slack (trace pst')) =
        length (filter is_slack (trace pst)) +
        (if (\<exists>r. pout = Returned (Some r)) \<and> slack_webhook_url settings \<noteq> [] \<and>
            col (last (table_rows (leads_table (database pst')))) ''tier'' = Val (PStr ''hot'')
         then 1 else 0)) \<and>
   process_visitor (w\<lparr>slack_fails := f\<rparr>) settings now visitor client_ip st =
     process_visitor w settings now visitor client_ip st \<and>
   process_rb2b_lead (w\<lparr>slack_fails := f\<rparr>) settings now rb2b_data pst =
     process_rb2b_lead w settings now rb2b_data pst"
proof (intro conjI impI)
  assume "process_visitor w settings now visitor client_ip st = (st', out)"
  then show "length (filter is_slack (trace st')) =
        length (filter is_slack (trace st)) +
        (if out = Returned () \<and>
            effective_ip visitor client_ip \<notin> {[], ''127.0.0.1'', ''::1'', ''localhost''} \<and>
            slack_webhook_url settings \<noteq> [] \<and>
            col (last (table_rows (leads_table (database st')))) ''tier'' = Val (PStr ''hot'')
         then 1 else 0)"
    by (rule alerts_visitor_run)
next
  assume "process_rb2b_lead w settings now rb2b_data pst = (pst', pout)"
  then show "length (filter is_slack (trace pst')) =
        length (filter is_slack (trace pst)) +
        (if (\<exists>r. pout = Returned (Some r)) \<and> slack_webhook_url settings \<noteq> [] \<and>
            col (last (table_rows (leads_table (database pst')))) ''tier'' = Val (PStr ''hot'')
         then 1 else 0)"
    by (rule alerts_rb2b_run)
next
  show "process_visitor (w\<lparr>slack_fails := f\<rparr>) settings now visitor client_ip st =
     process_visitor w settings now visitor client_ip st"
    by (rule process_visitor_slack_fails)
next
  show "process_rb2b_lead (w\<lparr>slack_fails := f\<rparr>) settings now rb2b_data pst =
     process_rb2b_lead w settings now rb2b_data pst"
    by (rule process_rb2b_lead_slack_fails)
qed

theorem alert_exactly_for_hot_leads_witness:
  "(\<exists>st' r. process_rb2b_lead (ex_world 60) ex_settings 1 ex_rb2b ex_state = (st', Returned (Some r)) \<and>
      map (\<lambda>row. col row ''tier'') (table_rows (leads_table (database st'))) = [Val (PStr ''hot'')] \<and>
      length (filter is_slack (trace st')) = 1) \<and>
   (\<exists>st' r. process_rb2b_lead (ex_world 60) ex_settings_no_slack 1 ex_rb2b ex_state =
               (st', Returned (Some r)) \<and>
      map (\<lambda>row. col row ''tier'') (table_rows (leads_table (database st'))) = [Val (PStr ''hot'')] \<and>
      length (filter is_slack (trace st')) = 0) \<and>
   (\<exists>st'. process_visitor (ex_world 60) ex_settings 1 ex_visitor ''203.0.113.9'' ex_state =
             (st', Returned ()) \<and>
      map (\<lambda>row. col row ''tier'') (table_rows (leads_table (database st'))) = [Val (PStr ''cold'')] \<and>
      length (filter is_slack (trace st')) = 0) \<and>
   process_rb2b_lead ((ex_world 60)\<lparr>slack_fails := (\<lambda>u m. False)\<rparr>) ex_settings 1 ex_rb2b ex_state =
     process_rb2b_lead (ex_world 60) ex_settings 1 ex_rb2b ex_state"
proof -
  have init: "trace ex_state = []"
    by (simp add: ex_state_def)
  have hook: "slack_webhook_url ex_settings \<noteq> []" "slack_webhook_url ex_settings_no_slack = []"
    by (simp_all add: ex_settings_def ex_settings_no_slack_def)
  have ip: "effective_ip ex_visitor ''203.0.113.9'' = ''23.227.38.32''"
    by (simp add: effective_ip_def ex_visitor_def)
  have e1: "case process_rb2b_lead (ex_world 60) ex_settings 1 ex_rb2b ex_state of
              (st', Returned (Some r)) \<Rightarrow>
                map (\<lambda>row. col row ''tier'') (table_rows (leads_table (database st'))) =
                  [Val (PStr ''hot'')]
            | _ \<Rightarrow> False"
    by code_simp
  have e2: "case process_rb2b_lead (ex_world 60) ex_settings_no_slack 1 ex_rb2b ex_state of
              (st', Returned (Some r)) \<Rightarrow>
                map (\<lambda>row. col row ''tier'') (table_rows (leads_table (database st'))) =
                  [Val (PStr ''hot'')]
            | _ \<Rightarrow> False"
    by code_simp
  have e3: "case process_visitor (ex_world 60) ex_settings 1 ex_visitor ''203.0.113.9'' ex_state of
              (st', out) \<Rightarrow>
                out = Returned () \<and>
                map (\<lambda>row. col row ''tier'') (table_rows (leads_table (database st'))) =
                  [Val (PStr ''cold'')]"
    by code_simp
  from e1 obtain st1 r1 where
    r1: "process_rb2b_lead (ex_world 60) ex_settings 1 ex_rb2b ex_state = (st1, Returned (Some r1))"
    and t1: "map (\<lambda>row. col row ''tier'') (table_rows (leads_table (database st1))) = [Val (PStr ''hot'')]"
    by (auto split: prod.splits outcome.splits option.splits)
  from e2 obtain st2 r2 where
    r2: "process_rb2b_lead (ex_world 60) ex_settings_no_slack 1 ex_rb2b ex_state = (st2, Returned (Some r2))"
    and t2: "map (\<lambda>row. col row ''tier'') (table_rows (leads_table (database st2))) = [Val (PStr ''hot'')]"
    by (auto split: prod.splits outcome.splits option.splits)
  from e3 obtain st3 where
    r3: "process_visitor (ex_world 60) ex_settings 1 ex_visitor ''203.0.113.9'' ex_state = (st3, Returned ())"
    and t3: "map (\<lambda>row. col row ''tier'') (table_rows (leads_table (database st3))) = [Val (PStr ''cold'')]"
    by (auto split: prod.splits)
  have l1: "col (last (table_rows (leads_table (database st1)))) ''tier'' = Val (PStr ''hot'')"
    using t1 by (cases "table_rows (leads_table (database st1))") auto
  have l3: "col (last (table_rows (leads_table (database st3)))) ''tier'' = Val (PStr ''cold'')"
    using t3 by (cases "table_rows (leads_table (database st3))") auto
  note T1 = alert_exactly_for_hot_leads [where w = "ex_world 60" and settings = ex_settings and now = 1
      and rb2b_data = ex_rb2b and pst = ex_state and pst' = st1 and pout = "Returned (Some r1)"
      and visitor = ex_visitor and client_ip = "''203.0.113.9''" and st = ex_state and st' = st3
      and out = "Returned ()" and f = "\<lambda>u m. False"]
  note T2 = alert_exactly_for_hot_leads [where w = "ex_world 60" and settings = ex_settings_no_slack
      and now = 1 and rb2b_data = ex_rb2b and pst = ex_state and pst' = st2
      and pout = "Returned (Some r2)", THEN conjunct2, THEN conjunct1]
  have a: "length (filter is_slack (trace st1)) = 1"
    using T1 [THEN conjunct2, THEN conjunct1] r1 l1 hook(1) init by simp
  have b: "length (filter is_slack (trace st2)) = 0"
    using T2 r2 hook(2) init by simp
  have c: "length (filter is_slack (trace st3)) = 0"
    using T1 [THEN conjunct1] r3 l3 init by simp
  have d: "process_rb2b_lead ((ex_world 60)\<lparr>slack_fails := (\<lambda>u m. False)\<rparr>) ex_settings 1 ex_rb2b ex_state =
     process_rb2b_lead (ex_world 60) ex_settings 1 ex_rb2b ex_state"
    using T1 [THEN conjunct2, THEN conjunct2, THEN conjunct2] .
  have A: "\<exists>st' r. process_rb2b_lead (ex_world 60) ex_settings 1 ex_rb2b ex_state = (st', Returned (Some r)) \<and>
      map (\<lambda>row. col row ''tier'') (table_rows (leads_table (database st'))) = [Val (PStr ''hot'')] \<and>
      length (filter is_slack (trace st')) = 1"
    by (rule exI [of _ st1], rule exI [of _ r1]) (simp only: r1 t1 a simp_thms)
  have B: "\<exists>st' r. process_rb2b_lead (ex_world 60) ex_settings_no_slack 1 ex_rb2b ex_state =
               (st', Returned (Some r)) \<and>
      map (\<lambda>row. col row ''tier'') (table_rows (leads_table (database st'))) = [Val (PStr ''hot'')] \<and>
      length (filter is_slack (trace st')) = 0"
    by (rule exI [of _ st2], rule exI [of _ r2]) (simp only: r2 t2 b simp_thms)
  have C: "\<exists>st'. process_visitor (ex_world 60) ex_settings 1 ex_visitor ''203.0.113.9'' ex_state =
             (st', Returned ()) \<and>
      map (\<lambda>row. col row ''tier'') (table_rows (leads_table (database st'))) = [Val (PStr ''cold'')] \<and>
      length (filter is_slack (trace st')) = 0"
    by (rule exI [of _ st3]) (simp only: r3 t3 c simp_thms)
  from A B C d show ?thesis
    by (intro conjI)
qed

text \<open>
  Claim C9, which the code does not meet. The column list of
  \<^verbatim>\<open>INSERT OR REPLACE INTO companies\<close> leaves \<open>annual_revenue\<close> out, so the stored
  column is its default 0 whatever the enrichment returned; the value survives only in
  \<open>enriched_data\<close>. On the sample event the enrichment returns 5000000 and the row holds
  0.
\<close>

theorem annual_revenue_not_stored:
  "(case process_rb2b_lead (ex_world 60) ex_settings 1 ex_rb2b ex_state of
      (st', out) \<Rightarrow>
        (case out of Returned (Some r) \<Rightarrow> Some (py_get (r_company r) ''annual_revenue'' PNone)
                   | _ \<Rightarrow> None,
         map (\<lambda>r. (col r ''domain'', col r ''annual_revenue''))
           (table_rows (companies_table (database st'))))) =
   (Some (PInt 5000000), [(Val (PStr ''shopify.com''), Val (PInt 0))])"
  by code_simp

text \<open>
  Claim C10. A save whose company has a domain that the table already holds replaces the
  old row by a new one with a fresh, larger id. The leads and contacts stored before are
  kept as they are, so each of them that pointed to the old row now carries a
  \<open>company_id\<close> that no row of \<open>companies\<close> has. The table is taken with distinct ids,
  as its primary key makes it.
\<close>

theorem upsert_orphans_earlier_rows:
  assumes dm: "py_get company ''domain'' PNone = PStr dm" "dm \<noteq> []"
    and pk: "distinct (map rowid (table_rows (companies_table d)))"
    and old: "old \<in> set (table_rows (companies_table d))" "col old ''domain'' = Val (PStr dm)"
    and run: "save_lead lead_id company contacts visitor scoring ip identified source person d = Returned d' \<or>
              save_rb2b_lead lead_id company contacts scoring person raw_data d = Returned d'"
  shows "(\<exists>new. filter (\<lambda>r. col r ''domain'' = Val (PStr dm)) (table_rows (companies_table d')) = [new] \<and>
                rowid old < rowid new) \<and>
         \<not> list_ex (\<lambda>r. rowid r = rowid old) (table_rows (companies_table d')) \<and>
         (\<forall>l \<in> set (table_rows (leads_table d)).
            col l ''company_id'' = Val (PInt (int (rowid old))) \<longrightarrow>
            l \<in> set (table_rows (leads_table d'))) \<and>
         (\<forall>c \<in> set (table_rows (contacts_table d)).
            col c ''company_id'' = Val (PInt (int (rowid old))) \<longrightarrow>
            c \<in> set (table_rows (contacts_table d')))"
proof -
  have t: "truthy (py_get company ''domain'' PNone)"
    using dm by simp
  have comps: "companies_table d' = upsert_company company (companies_table d)"
    using save_companies_with_domain [OF run t] .
  let ?new = "new_row companies_schema (next_rowid (companies_table d)) (company_values company)"
  have one: "filter (\<lambda>r. col r ''domain'' = Val (PStr dm)) (table_rows (companies_table d')) = [?new]"
    unfolding comps using domain_rows_upsert_company [OF dm(1), of "companies_table d"] by simp
  have fresh: "rowid old < rowid ?new"
    using rowid_less_next [OF old(1)] by (simp add: rowid_new_row)
  have gone: "\<not> list_ex (\<lambda>r. rowid r = rowid old) (table_rows (companies_table d'))"
    unfolding comps using upsert_removes_old [OF dm(1) pk old] by (auto simp: list_ex_iff)
  show ?thesis
    using one fresh gone save_keeps_leads [OF run] save_keeps_contacts [OF run] by blast
qed

theorem upsert_orphans_earlier_rows_witness:
  "\<exists>d d' old l c.
     save_lead ''lead_1_sess-012'' ex_company [ex_contact] ex_visitor (ex_answer 40) ''23.227.38.32''
       ''Acme'' ''tracking'' [] empty_db = Returned d \<and>
     table_rows (companies_table d) = [old] \<and> rowid old = 1 \<and>
     col old ''domain'' = Val (PStr ''acme.com'') \<and>
     table_rows (leads_table d) = [l] \<and> col l ''company_id'' = Val (PInt 1) \<and>
     table_rows (contacts_table d) = [c] \<and> col c ''company_id'' = Val (PInt 1) \<and>
     save_rb2b_lead ''rb2b_2_ann'' ex_company_later [] (ex_answer 80) [] [] d = Returned d' \<and>
     map rowid (table_rows (companies_table d')) = [2] \<and>
     l \<in> set (table_rows (leads_table d')) \<and> c \<in> set (table_rows (contacts_table d'))"
proof -
  let ?s1 = "save_lead ''lead_1_sess-012'' ex_company [ex_contact] ex_visitor (ex_answer 40)
               ''23.227.38.32'' ''Acme'' ''tracking'' [] empty_db"
  have "case ?s1 of
          Returned d \<Rightarrow>
            (case (table_rows (companies_table d), table_rows (leads_table d),
                   table_rows (contacts_table d)) of
               ([old], [l], [c]) \<Rightarrow>
                 rowid old = 1 \<and> col old ''domain'' = Val (PStr ''acme.com'') \<and>
                 col l ''company_id'' = Val (PInt 1) \<and> col c ''company_id'' = Val (PInt 1)
             | _ \<Rightarrow> False)
        | _ \<Rightarrow> False"
    by code_simp
  then obtain d old l c where s1: "?s1 = Returned d"
    and rows: "table_rows (companies_table d) = [old]" "table_rows (leads_table d) = [l]"
      "table_rows (contacts_table d) = [c]"
    and facts: "rowid old = 1" "col old ''domain'' = Val (PStr ''acme.com'')"
      "col l ''company_id'' = Val (PInt 1)" "col c ''company_id'' = Val (PInt 1)"
    by (auto split: outcome.splits list.splits)
  have "case (case ?s1 of Returned d \<Rightarrow>
                save_rb2b_lead ''rb2b_2_ann'' ex_company_later [] (ex_answer 80) [] [] d
              | Raised e \<Rightarrow> Raised e) of
          Returned d' \<Rightarrow> map rowid (table_rows (companies_table d')) = [2]
        | _ \<Rightarrow> False"
    by code_simp
  then obtain d' where s2: "save_rb2b_lead ''rb2b_2_ann'' ex_company_later [] (ex_answer 80) [] [] d = Returned d'"
    and ids: "map rowid (table_rows (companies_table d')) = [2]"
    unfolding s1 by (auto split: outcome.splits)
  have b: "py_get ex_company_later ''domain'' PNone = PStr ''acme.com''"
    by (simp add: ex_company_later_def py_get_def)
  have c: "''acme.com'' \<noteq> []" by simp
  have pk: "distinct (map rowid (table_rows (companies_table d)))"
    using rows(1) by simp
  have o: "old \<in> set (table_rows (companies_table d))"
    using rows(1) by simp
  from upsert_orphans_earlier_rows [OF b c pk o facts(2) disjI2 [OF s2]] rows facts
  have kept: "l \<in> set (table_rows (leads_table d'))" "c \<in> set (table_rows (contacts_table d'))"
    by auto
  show ?thesis
    by (rule exI [of _ d], rule exI [of _ d'], rule exI [of _ old], rule exI [of _ l],
        rule exI [of _ c])
       (simp only: s1 s2 rows facts ids kept simp_thms)
qed

end
